theory Spec2Isabelle
  imports Main "HOL-Library.Word" "HOL-Library.Char_ord" "HOL-Library.List_Lexorder"
begin

section \<open>The statistics header \<open>os_stats.h\<close> of the SWT GTK binding\<close>

text \<open>
  The header has two parts. Lines 16 to 25 declare, under \<^verbatim>\<open>#ifdef NATIVE_STATS\<close>,
  three external variables and define the two hooks \<^verbatim>\<open>OS_NATIVE_ENTER\<close> and
  \<^verbatim>\<open>OS_NATIVE_EXIT\<close>; lines 27 to 1015 are the enumeration \<^verbatim>\<open>OS_FUNCS\<close>, which is
  outside the conditional and therefore the same in both configurations.
\<close>

subsection \<open>The external variables\<close>

text \<open>
  \<^verbatim>\<open>extern int OS_nativeFunctionCount;\<close>
  \<^verbatim>\<open>extern int OS_nativeFunctionCallCount[];\<close>
  \<^verbatim>\<open>extern char* OS_nativeFunctionNames[];\<close>

  A C \<^verbatim>\<open>int\<close> is a 32-bit two's-complement value on every target of the binding, read
  with \<open>sint\<close>. Both arrays are declared with no size: their length is fixed by the
  defining file, which is not part of the header, so it is the length of the list here.
  The record is used at its extensible type \<open>'a stats_state_scheme\<close>: the \<open>more\<close> part
  stands for all the rest of the program's state.
\<close>

type_synonym c_int = "32 word"

record stats_state =
  OS_nativeFunctionCount :: c_int
  OS_nativeFunctionCallCount :: "c_int list"
  OS_nativeFunctionNames :: "string list"

text \<open>
  What the header declares in each configuration: the three \<^verbatim>\<open>extern\<close> lines stand
  between \<^verbatim>\<open>#ifdef NATIVE_STATS\<close> and \<^verbatim>\<open>#else\<close>, and the \<^verbatim>\<open>#else\<close> branch declares
  no variable.
\<close>

datatype c_type = Int_t | Int_array_t | Char_ptr_array_t

definition extern_declarations :: "bool \<Rightarrow> (c_type \<times> string) list" where
  "extern_declarations NATIVE_STATS =
     (if NATIVE_STATS then
        [(Int_t, ''OS_nativeFunctionCount''),
         (Int_array_t, ''OS_nativeFunctionCallCount''),
         (Char_ptr_array_t, ''OS_nativeFunctionNames'')]
      else [])"

subsection \<open>The two hooks\<close>

text \<open>
  Indexing an array outside its bounds is undefined in C; the model makes it the error
  \<open>Out_of_bounds\<close>. Incrementing an \<^verbatim>\<open>int\<close> that holds \<^verbatim>\<open>INT_MAX\<close> is undefined in
  C as well; the compiled code adds one to the 32-bit cell, so the model wraps around.
\<close>

datatype error = Out_of_bounds

definition INT_MAX :: int where
  "INT_MAX = 2147483647"

text \<open>\<^verbatim>\<open>a[i]++;\<close> as a statement on an array of \<^verbatim>\<open>int\<close>.\<close>

definition post_increment_at :: "c_int list \<Rightarrow> int \<Rightarrow> error + c_int list" where
  "post_increment_at a i =
     (if 0 \<le> i \<and> i < int (length a) then Inr (a[nat i := a ! nat i + 1])
      else Inl Out_of_bounds)"

text \<open>
  \<^verbatim>\<open>#ifdef NATIVE_STATS\<close>
  \<^verbatim>\<open>#define OS_NATIVE_ENTER(env, that, func) OS_nativeFunctionCallCount[func]++;\<close>
  \<^verbatim>\<open>#define OS_NATIVE_EXIT(env, that, func)\<close>
  \<^verbatim>\<open>#else\<close>
  \<^verbatim>\<open>#define OS_NATIVE_ENTER(env, that, func)\<close>
  \<^verbatim>\<open>#define OS_NATIVE_EXIT(env, that, func)\<close>
  \<^verbatim>\<open>#endif\<close>

  The first argument of each function below is the build-time flag; \<open>env\<close> and \<open>that\<close>
  are the two macro parameters that no expansion uses.
\<close>

definition OS_NATIVE_ENTER ::
  "bool \<Rightarrow> 'e \<Rightarrow> 't \<Rightarrow> int \<Rightarrow> 'a stats_state_scheme \<Rightarrow> error + 'a stats_state_scheme" where
  "OS_NATIVE_ENTER NATIVE_STATS env that func s =
     (if NATIVE_STATS then
        (case post_increment_at (OS_nativeFunctionCallCount s) func of
           Inl e \<Rightarrow> Inl e
         | Inr a \<Rightarrow> Inr (s\<lparr>OS_nativeFunctionCallCount := a\<rparr>))
      else Inr s)"

definition OS_NATIVE_EXIT ::
  "bool \<Rightarrow> 'e \<Rightarrow> 't \<Rightarrow> int \<Rightarrow> 'a stats_state_scheme \<Rightarrow> error + 'a stats_state_scheme" where
  "OS_NATIVE_EXIT NATIVE_STATS env that func s = (if NATIVE_STATS then Inr s else Inr s)"

subsection \<open>The enumeration \<open>OS_FUNCS\<close>\<close>

text \<open>
  An enumeration is the list of its enumerators in the order of the source, each with
  the value its declaration gives it explicitly, if any. No enumerator of \<^verbatim>\<open>OS_FUNCS\<close>
  has one.
\<close>

type_synonym enum_declaration = "(string \<times> int option) list"

definition OS_FUNCS :: enum_declaration where
  "OS_FUNCS = [
    (''Call_FUNC'', None),
    (''GDK_1WINDOWING_1X11_FUNC'', None),
    (''GInterfaceInfo_1sizeof_FUNC'', None),
    (''GPollFD_1sizeof_FUNC'', None),
    (''GTK_1ACCEL_1LABEL_1GET_1ACCEL_1STRING_FUNC'', None),
    (''GTK_1ACCEL_1LABEL_1SET_1ACCEL_1STRING_FUNC'', None),
    (''GTK_1ENTRY_1IM_1CONTEXT_FUNC'', None),
    (''GTK_1SCROLLED_1WINDOW_1HSCROLLBAR_FUNC'', None),
    (''GTK_1SCROLLED_1WINDOW_1SCROLLBAR_1SPACING_FUNC'', None),
    (''GTK_1SCROLLED_1WINDOW_1VSCROLLBAR_FUNC'', None),
    (''GTK_1TEXTVIEW_1IM_1CONTEXT_FUNC'', None),
    (''GTK_1WIDGET_1HEIGHT_FUNC'', None),
    (''GTK_1WIDGET_1REQUISITION_1HEIGHT_FUNC'', None),
    (''GTK_1WIDGET_1REQUISITION_1WIDTH_FUNC'', None),
    (''GTK_1WIDGET_1SET_1HEIGHT_FUNC'', None),
    (''GTK_1WIDGET_1SET_1WIDTH_FUNC'', None),
    (''GTK_1WIDGET_1SET_1X_FUNC'', None),
    (''GTK_1WIDGET_1SET_1Y_FUNC'', None),
    (''GTK_1WIDGET_1WIDTH_FUNC'', None),
    (''GTK_1WIDGET_1WINDOW_FUNC'', None),
    (''GTK_1WIDGET_1X_FUNC'', None),
    (''GTK_1WIDGET_1Y_FUNC'', None),
    (''GTypeInfo_1sizeof_FUNC'', None),
    (''GTypeQuery_1sizeof_FUNC'', None),
    (''GdkColor_1sizeof_FUNC'', None),
    (''GdkDragContext_1sizeof_FUNC'', None),
    (''GdkEventButton_1sizeof_FUNC'', None),
    (''GdkEventCrossing_1sizeof_FUNC'', None),
    (''GdkEventExpose_1sizeof_FUNC'', None),
    (''GdkEventFocus_1sizeof_FUNC'', None),
    (''GdkEventKey_1sizeof_FUNC'', None),
    (''GdkEventMotion_1sizeof_FUNC'', None),
    (''GdkEventScroll_1sizeof_FUNC'', None),
    (''GdkEventVisibility_1sizeof_FUNC'', None),
    (''GdkEventWindowState_1sizeof_FUNC'', None),
    (''GdkEvent_1sizeof_FUNC'', None),
    (''GdkGCValues_1sizeof_FUNC'', None),
    (''GdkGeometry_1sizeof_FUNC'', None),
    (''GdkImage_1sizeof_FUNC'', None),
    (''GdkRectangle_1sizeof_FUNC'', None),
    (''GdkVisual_1sizeof_FUNC'', None),
    (''GdkWindowAttr_1sizeof_FUNC'', None),
    (''GtkAdjustment_1sizeof_FUNC'', None),
    (''GtkAllocation_1sizeof_FUNC'', None),
    (''GtkBorder_1sizeof_FUNC'', None),
    (''GtkColorSelectionDialog_1sizeof_FUNC'', None),
    (''GtkCombo_1sizeof_FUNC'', None),
    (''GtkFileSelection_1sizeof_FUNC'', None),
    (''GtkFixedClass_1sizeof_FUNC'', None),
    (''GtkFixed_1sizeof_FUNC'', None),
    (''GtkRequisition_1sizeof_FUNC'', None),
    (''GtkSelectionData_1sizeof_FUNC'', None),
    (''GtkTargetEntry_1sizeof_FUNC'', None),
    (''GtkTargetPair_1sizeof_FUNC'', None),
    (''GtkTextIter_1sizeof_FUNC'', None),
    (''GtkTreeIter_1sizeof_FUNC'', None),
    (''PTR_1sizeof_FUNC'', None),
    (''PangoAttribute_1sizeof_FUNC'', None),
    (''PangoItem_1sizeof_FUNC'', None),
    (''PangoLayoutLine_1sizeof_FUNC'', None),
    (''PangoLayoutRun_1sizeof_FUNC'', None),
    (''PangoLogAttr_1sizeof_FUNC'', None),
    (''PangoRectangle_1sizeof_FUNC'', None),
    (''XAnyEvent_1sizeof_FUNC'', None),
    (''XButtonEvent_1sizeof_FUNC'', None),
    (''XClientMessageEvent_1sizeof_FUNC'', None),
    (''XCrossingEvent_1sizeof_FUNC'', None),
    (''XEvent_1sizeof_FUNC'', None),
    (''XExposeEvent_1sizeof_FUNC'', None),
    (''XFocusChangeEvent_1sizeof_FUNC'', None),
    (''XVisibilityEvent_1sizeof_FUNC'', None),
    (''XWindowChanges_1sizeof_FUNC'', None),
    (''_1Call_FUNC'', None),
    (''_1GDK_1DISPLAY_FUNC'', None),
    (''_1GDK_1PIXMAP_1XID_FUNC'', None),
    (''_1GDK_1ROOT_1PARENT_FUNC'', None),
    (''_1GDK_1TYPE_1COLOR_FUNC'', None),
    (''_1GDK_1TYPE_1PIXBUF_FUNC'', None),
    (''_1GTK_1IS_1BUTTON_FUNC'', None),
    (''_1GTK_1IS_1CELL_1RENDERER_1PIXBUF_FUNC'', None),
    (''_1GTK_1IS_1CELL_1RENDERER_1TEXT_FUNC'', None),
    (''_1GTK_1IS_1CONTAINER_FUNC'', None),
    (''_1GTK_1IS_1IMAGE_1MENU_1ITEM_FUNC'', None),
    (''_1GTK_1STOCK_1CANCEL_FUNC'', None),
    (''_1GTK_1STOCK_1OK_FUNC'', None),
    (''_1GTK_1TYPE_1FIXED_FUNC'', None),
    (''_1GTK_1WIDGET_1FLAGS_FUNC'', None),
    (''_1GTK_1WIDGET_1HAS_1DEFAULT_FUNC'', None),
    (''_1GTK_1WIDGET_1HAS_1FOCUS_FUNC'', None),
    (''_1GTK_1WIDGET_1IS_1SENSITIVE_FUNC'', None),
    (''_1GTK_1WIDGET_1MAPPED_FUNC'', None),
    (''_1GTK_1WIDGET_1SENSITIVE_FUNC'', None),
    (''_1GTK_1WIDGET_1SET_1FLAGS_FUNC'', None),
    (''_1GTK_1WIDGET_1STATE_FUNC'', None),
    (''_1GTK_1WIDGET_1UNSET_1FLAGS_FUNC'', None),
    (''_1GTK_1WIDGET_1VISIBLE_FUNC'', None),
    (''_1G_1OBJECT_1CLASS_FUNC'', None),
    (''_1G_1OBJECT_1GET_1CLASS_FUNC'', None),
    (''_1G_1OBJECT_1TYPE_FUNC'', None),
    (''_1G_1TYPE_1BOOLEAN_FUNC'', None),
    (''_1G_1TYPE_1INT_FUNC'', None),
    (''_1G_1TYPE_1STRING_FUNC'', None),
    (''_1PANGO_1PIXELS_FUNC'', None),
    (''_1PANGO_1TYPE_1FONT_1DESCRIPTION_FUNC'', None),
    (''_1XCheckIfEvent_FUNC'', None),
    (''_1XCheckMaskEvent_FUNC'', None),
    (''_1XCheckWindowEvent_FUNC'', None),
    (''_1XDefaultRootWindow_FUNC'', None),
    (''_1XDefaultScreen_FUNC'', None),
    (''_1XFlush_FUNC'', None),
    (''_1XFree_FUNC'', None),
    (''_1XGetSelectionOwner_FUNC'', None),
    (''_1XInternAtom_FUNC'', None),
    (''_1XKeysymToKeycode_FUNC'', None),
    (''_1XListProperties_FUNC'', None),
    (''_1XQueryTree_FUNC'', None),
    (''_1XReconfigureWMWindow_FUNC'', None),
    (''_1XSendEvent_FUNC'', None),
    (''_1XSetErrorHandler_FUNC'', None),
    (''_1XSetIOErrorHandler_FUNC'', None),
    (''_1XSetInputFocus_FUNC'', None),
    (''_1XSynchronize_FUNC'', None),
    (''_1XTestFakeButtonEvent_FUNC'', None),
    (''_1XTestFakeKeyEvent_FUNC'', None),
    (''_1XTestFakeMotionEvent_FUNC'', None),
    (''_1XWarpPointer_FUNC'', None),
    (''_1g_1filename_1from_1uri_FUNC'', None),
    (''_1g_1filename_1from_1utf8_FUNC'', None),
    (''_1g_1filename_1to_1uri_FUNC'', None),
    (''_1g_1filename_1to_1utf8_FUNC'', None),
    (''_1g_1free_FUNC'', None),
    (''_1g_1list_1append_FUNC'', None),
    (''_1g_1list_1data_FUNC'', None),
    (''_1g_1list_1free_FUNC'', None),
    (''_1g_1list_1free_11_FUNC'', None),
    (''_1g_1list_1length_FUNC'', None),
    (''_1g_1list_1next_FUNC'', None),
    (''_1g_1list_1nth_FUNC'', None),
    (''_1g_1list_1nth_1data_FUNC'', None),
    (''_1g_1list_1prepend_FUNC'', None),
    (''_1g_1list_1previous_FUNC'', None),
    (''_1g_1list_1remove_1link_FUNC'', None),
    (''_1g_1list_1reverse_FUNC'', None),
    (''_1g_1list_1set_1next_FUNC'', None),
    (''_1g_1list_1set_1previous_FUNC'', None),
    (''_1g_1locale_1from_1utf8_FUNC'', None),
    (''_1g_1locale_1to_1utf8_FUNC'', None),
    (''_1g_1log_1default_1handler_FUNC'', None),
    (''_1g_1log_1remove_1handler_FUNC'', None),
    (''_1g_1log_1set_1handler_FUNC'', None),
    (''_1g_1main_1context_1acquire_FUNC'', None),
    (''_1g_1main_1context_1check_FUNC'', None),
    (''_1g_1main_1context_1default_FUNC'', None),
    (''_1g_1main_1context_1get_1poll_1func_FUNC'', None),
    (''_1g_1main_1context_1iteration_FUNC'', None),
    (''_1g_1main_1context_1pending_FUNC'', None),
    (''_1g_1main_1context_1prepare_FUNC'', None),
    (''_1g_1main_1context_1query_FUNC'', None),
    (''_1g_1main_1context_1release_FUNC'', None),
    (''_1g_1malloc_FUNC'', None),
    (''_1g_1object_1get_FUNC'', None),
    (''_1g_1object_1get_1qdata_FUNC'', None),
    (''_1g_1object_1new_FUNC'', None),
    (''_1g_1object_1ref_FUNC'', None),
    (''_1g_1object_1set__I_3BFI_FUNC'', None),
    (''_1g_1object_1set__I_3BII_FUNC'', None),
    (''_1g_1object_1set__I_3BJI_FUNC'', None),
    (''_1g_1object_1set__I_3BZI_FUNC'', None),
    (''_1g_1object_1set_1qdata_FUNC'', None),
    (''_1g_1object_1unref_FUNC'', None),
    (''_1g_1quark_1from_1string_FUNC'', None),
    (''_1g_1signal_1connect_FUNC'', None),
    (''_1g_1signal_1connect_1after_FUNC'', None),
    (''_1g_1signal_1emit_1by_1name__I_3B_FUNC'', None),
    (''_1g_1signal_1emit_1by_1name__I_3BI_FUNC'', None),
    (''_1g_1signal_1emit_1by_1name__I_3BII_FUNC'', None),
    (''_1g_1signal_1emit_1by_1name__I_3B_3B_FUNC'', None),
    (''_1g_1signal_1handler_1disconnect_FUNC'', None),
    (''_1g_1signal_1handlers_1block_1matched_FUNC'', None),
    (''_1g_1signal_1handlers_1disconnect_1matched_FUNC'', None),
    (''_1g_1signal_1handlers_1unblock_1matched_FUNC'', None),
    (''_1g_1signal_1lookup_FUNC'', None),
    (''_1g_1signal_1stop_1emission_1by_1name_FUNC'', None),
    (''_1g_1slist_1data_FUNC'', None),
    (''_1g_1slist_1free_FUNC'', None),
    (''_1g_1slist_1length_FUNC'', None),
    (''_1g_1slist_1next_FUNC'', None),
    (''_1g_1strfreev_FUNC'', None),
    (''_1g_1thread_1init_FUNC'', None),
    (''_1g_1thread_1supported_FUNC'', None),
    (''_1g_1type_1add_1interface_1static_FUNC'', None),
    (''_1g_1type_1class_1peek_FUNC'', None),
    (''_1g_1type_1class_1peek_1parent_FUNC'', None),
    (''_1g_1type_1from_1name_FUNC'', None),
    (''_1g_1type_1interface_1peek_1parent_FUNC'', None),
    (''_1g_1type_1is_1a_FUNC'', None),
    (''_1g_1type_1name_FUNC'', None),
    (''_1g_1type_1parent_FUNC'', None),
    (''_1g_1type_1query_FUNC'', None),
    (''_1g_1type_1register_1static_FUNC'', None),
    (''_1g_1utf16_1to_1utf8_FUNC'', None),
    (''_1g_1utf8_1offset_1to_1pointer_FUNC'', None),
    (''_1g_1utf8_1pointer_1to_1offset_FUNC'', None),
    (''_1g_1utf8_1strlen_FUNC'', None),
    (''_1g_1utf8_1to_1utf16__II_3I_3I_3I_FUNC'', None),
    (''_1g_1utf8_1to_1utf16___3BI_3I_3I_3I_FUNC'', None),
    (''_1gdk_1atom_1intern_FUNC'', None),
    (''_1gdk_1atom_1name_FUNC'', None),
    (''_1gdk_1beep_FUNC'', None),
    (''_1gdk_1bitmap_1create_1from_1data_FUNC'', None),
    (''_1gdk_1color_1white_FUNC'', None),
    (''_1gdk_1colormap_1alloc_1color_FUNC'', None),
    (''_1gdk_1colormap_1free_1colors_FUNC'', None),
    (''_1gdk_1colormap_1get_1system_FUNC'', None),
    (''_1gdk_1colormap_1query_1color_FUNC'', None),
    (''_1gdk_1cursor_1destroy_FUNC'', None),
    (''_1gdk_1cursor_1new_FUNC'', None),
    (''_1gdk_1cursor_1new_1from_1pixmap_FUNC'', None),
    (''_1gdk_1drag_1status_FUNC'', None),
    (''_1gdk_1draw_1arc_FUNC'', None),
    (''_1gdk_1draw_1drawable_FUNC'', None),
    (''_1gdk_1draw_1layout_FUNC'', None),
    (''_1gdk_1draw_1layout_1with_1colors_FUNC'', None),
    (''_1gdk_1draw_1line_FUNC'', None),
    (''_1gdk_1draw_1lines_FUNC'', None),
    (''_1gdk_1draw_1pixbuf_FUNC'', None),
    (''_1gdk_1draw_1point_FUNC'', None),
    (''_1gdk_1draw_1polygon_FUNC'', None),
    (''_1gdk_1draw_1rectangle_FUNC'', None),
    (''_1gdk_1drawable_1get_1image_FUNC'', None),
    (''_1gdk_1drawable_1get_1size_FUNC'', None),
    (''_1gdk_1drawable_1get_1visible_1region_FUNC'', None),
    (''_1gdk_1error_1trap_1pop_FUNC'', None),
    (''_1gdk_1error_1trap_1push_FUNC'', None),
    (''_1gdk_1event_1copy_FUNC'', None),
    (''_1gdk_1event_1free_FUNC'', None),
    (''_1gdk_1event_1get_FUNC'', None),
    (''_1gdk_1event_1get_1coords_FUNC'', None),
    (''_1gdk_1event_1get_1graphics_1expose_FUNC'', None),
    (''_1gdk_1event_1get_1root_1coords_FUNC'', None),
    (''_1gdk_1event_1get_1state_FUNC'', None),
    (''_1gdk_1event_1get_1time_FUNC'', None),
    (''_1gdk_1event_1handler_1set_FUNC'', None),
    (''_1gdk_1event_1put_FUNC'', None),
    (''_1gdk_1flush_FUNC'', None),
    (''_1gdk_1free_1text_1list_FUNC'', None),
    (''_1gdk_1gc_1get_1values_FUNC'', None),
    (''_1gdk_1gc_1new_FUNC'', None),
    (''_1gdk_1gc_1set_1background_FUNC'', None),
    (''_1gdk_1gc_1set_1clip_1mask_FUNC'', None),
    (''_1gdk_1gc_1set_1clip_1origin_FUNC'', None),
    (''_1gdk_1gc_1set_1clip_1rectangle_FUNC'', None),
    (''_1gdk_1gc_1set_1clip_1region_FUNC'', None),
    (''_1gdk_1gc_1set_1dashes_FUNC'', None),
    (''_1gdk_1gc_1set_1exposures_FUNC'', None),
    (''_1gdk_1gc_1set_1fill_FUNC'', None),
    (''_1gdk_1gc_1set_1foreground_FUNC'', None),
    (''_1gdk_1gc_1set_1function_FUNC'', None),
    (''_1gdk_1gc_1set_1line_1attributes_FUNC'', None),
    (''_1gdk_1gc_1set_1stipple_FUNC'', None),
    (''_1gdk_1gc_1set_1subwindow_FUNC'', None),
    (''_1gdk_1gc_1set_1values_FUNC'', None),
    (''_1gdk_1image_1get_FUNC'', None),
    (''_1gdk_1image_1get_1pixel_FUNC'', None),
    (''_1gdk_1keyboard_1ungrab_FUNC'', None),
    (''_1gdk_1keymap_1get_1default_FUNC'', None),
    (''_1gdk_1keymap_1translate_1keyboard_1state_FUNC'', None),
    (''_1gdk_1keyval_1to_1lower_FUNC'', None),
    (''_1gdk_1keyval_1to_1unicode_FUNC'', None),
    (''_1gdk_1pango_1context_1get_FUNC'', None),
    (''_1gdk_1pango_1context_1set_1colormap_FUNC'', None),
    (''_1gdk_1pango_1layout_1get_1clip_1region_FUNC'', None),
    (''_1gdk_1pixbuf_1get_1from_1drawable_FUNC'', None),
    (''_1gdk_1pixbuf_1get_1has_1alpha_FUNC'', None),
    (''_1gdk_1pixbuf_1get_1height_FUNC'', None),
    (''_1gdk_1pixbuf_1get_1pixels_FUNC'', None),
    (''_1gdk_1pixbuf_1get_1rowstride_FUNC'', None),
    (''_1gdk_1pixbuf_1get_1width_FUNC'', None),
    (''_1gdk_1pixbuf_1new_FUNC'', None),
    (''_1gdk_1pixbuf_1render_1pixmap_1and_1mask_FUNC'', None),
    (''_1gdk_1pixbuf_1render_1to_1drawable_FUNC'', None),
    (''_1gdk_1pixbuf_1render_1to_1drawable_1alpha_FUNC'', None),
    (''_1gdk_1pixbuf_1scale_FUNC'', None),
    (''_1gdk_1pixbuf_1scale_1simple_FUNC'', None),
    (''_1gdk_1pixmap_1foreign_1new_FUNC'', None),
    (''_1gdk_1pixmap_1new_FUNC'', None),
    (''_1gdk_1pointer_1grab_FUNC'', None),
    (''_1gdk_1pointer_1is_1grabbed_FUNC'', None),
    (''_1gdk_1pointer_1ungrab_FUNC'', None),
    (''_1gdk_1property_1get_FUNC'', None),
    (''_1gdk_1region_1destroy_FUNC'', None),
    (''_1gdk_1region_1empty_FUNC'', None),
    (''_1gdk_1region_1get_1clipbox_FUNC'', None),
    (''_1gdk_1region_1get_1rectangles_FUNC'', None),
    (''_1gdk_1region_1intersect_FUNC'', None),
    (''_1gdk_1region_1new_FUNC'', None),
    (''_1gdk_1region_1offset_FUNC'', None),
    (''_1gdk_1region_1point_1in_FUNC'', None),
    (''_1gdk_1region_1polygon_FUNC'', None),
    (''_1gdk_1region_1rect_1in_FUNC'', None),
    (''_1gdk_1region_1rectangle_FUNC'', None),
    (''_1gdk_1region_1subtract_FUNC'', None),
    (''_1gdk_1region_1union_FUNC'', None),
    (''_1gdk_1region_1union_1with_1rect_FUNC'', None),
    (''_1gdk_1rgb_1init_FUNC'', None),
    (''_1gdk_1screen_1get_1default_FUNC'', None),
    (''_1gdk_1screen_1get_1monitor_1at_1window_FUNC'', None),
    (''_1gdk_1screen_1get_1monitor_1geometry_FUNC'', None),
    (''_1gdk_1screen_1get_1n_1monitors_FUNC'', None),
    (''_1gdk_1screen_1get_1number_FUNC'', None),
    (''_1gdk_1screen_1height_FUNC'', None),
    (''_1gdk_1screen_1width_FUNC'', None),
    (''_1gdk_1screen_1width_1mm_FUNC'', None),
    (''_1gdk_1set_1program_1class_FUNC'', None),
    (''_1gdk_1text_1property_1to_1utf8_1list_FUNC'', None),
    (''_1gdk_1unicode_1to_1keyval_FUNC'', None),
    (''_1gdk_1utf8_1to_1compound_1text_FUNC'', None),
    (''_1gdk_1visual_1get_1system_FUNC'', None),
    (''_1gdk_1window_1add_1filter_FUNC'', None),
    (''_1gdk_1window_1at_1pointer_FUNC'', None),
    (''_1gdk_1window_1begin_1paint_1rect_FUNC'', None),
    (''_1gdk_1window_1destroy_FUNC'', None),
    (''_1gdk_1window_1end_1paint_FUNC'', None),
    (''_1gdk_1window_1focus_FUNC'', None),
    (''_1gdk_1window_1freeze_1updates_FUNC'', None),
    (''_1gdk_1window_1get_1children_FUNC'', None),
    (''_1gdk_1window_1get_1events_FUNC'', None),
    (''_1gdk_1window_1get_1frame_1extents_FUNC'', None),
    (''_1gdk_1window_1get_1internal_1paint_1info_FUNC'', None),
    (''_1gdk_1window_1get_1origin_FUNC'', None),
    (''_1gdk_1window_1get_1parent_FUNC'', None),
    (''_1gdk_1window_1get_1pointer_FUNC'', None),
    (''_1gdk_1window_1get_1user_1data_FUNC'', None),
    (''_1gdk_1window_1hide_FUNC'', None),
    (''_1gdk_1window_1invalidate_1rect_FUNC'', None),
    (''_1gdk_1window_1invalidate_1region_FUNC'', None),
    (''_1gdk_1window_1lookup_FUNC'', None),
    (''_1gdk_1window_1lower_FUNC'', None),
    (''_1gdk_1window_1move_FUNC'', None),
    (''_1gdk_1window_1new_FUNC'', None),
    (''_1gdk_1window_1process_1all_1updates_FUNC'', None),
    (''_1gdk_1window_1process_1updates_FUNC'', None),
    (''_1gdk_1window_1raise_FUNC'', None),
    (''_1gdk_1window_1remove_1filter_FUNC'', None),
    (''_1gdk_1window_1resize_FUNC'', None),
    (''_1gdk_1window_1scroll_FUNC'', None),
    (''_1gdk_1window_1set_1accept_1focus_FUNC'', None),
    (''_1gdk_1window_1set_1back_1pixmap_FUNC'', None),
    (''_1gdk_1window_1set_1cursor_FUNC'', None),
    (''_1gdk_1window_1set_1decorations_FUNC'', None),
    (''_1gdk_1window_1set_1events_FUNC'', None),
    (''_1gdk_1window_1set_1icon_FUNC'', None),
    (''_1gdk_1window_1set_1icon_1list_FUNC'', None),
    (''_1gdk_1window_1set_1keep_1above_FUNC'', None),
    (''_1gdk_1window_1set_1override_1redirect_FUNC'', None),
    (''_1gdk_1window_1set_1user_1data_FUNC'', None),
    (''_1gdk_1window_1shape_1combine_1region_FUNC'', None),
    (''_1gdk_1window_1show_FUNC'', None),
    (''_1gdk_1window_1show_1unraised_FUNC'', None),
    (''_1gdk_1window_1thaw_1updates_FUNC'', None),
    (''_1gdk_1x11_1atom_1to_1xatom_FUNC'', None),
    (''_1gdk_1x11_1colormap_1get_1xcolormap_FUNC'', None),
    (''_1gdk_1x11_1drawable_1get_1xdisplay_FUNC'', None),
    (''_1gdk_1x11_1drawable_1get_1xid_FUNC'', None),
    (''_1gdk_1x11_1visual_1get_1xvisual_FUNC'', None),
    (''_1gtk_1accel_1group_1new_FUNC'', None),
    (''_1gtk_1accel_1groups_1activate_FUNC'', None),
    (''_1gtk_1accel_1label_1set_1accel_1widget_FUNC'', None),
    (''_1gtk_1adjustment_1changed_FUNC'', None),
    (''_1gtk_1adjustment_1new_FUNC'', None),
    (''_1gtk_1adjustment_1set_1value_FUNC'', None),
    (''_1gtk_1adjustment_1value_1changed_FUNC'', None),
    (''_1gtk_1arrow_1new_FUNC'', None),
    (''_1gtk_1arrow_1set_FUNC'', None),
    (''_1gtk_1bin_1get_1child_FUNC'', None),
    (''_1gtk_1box_1set_1child_1packing_FUNC'', None),
    (''_1gtk_1button_1clicked_FUNC'', None),
    (''_1gtk_1button_1new_FUNC'', None),
    (''_1gtk_1button_1set_1relief_FUNC'', None),
    (''_1gtk_1cell_1renderer_1get_1size_FUNC'', None),
    (''_1gtk_1cell_1renderer_1pixbuf_1new_FUNC'', None),
    (''_1gtk_1cell_1renderer_1text_1new_FUNC'', None),
    (''_1gtk_1cell_1renderer_1toggle_1new_FUNC'', None),
    (''_1gtk_1check_1button_1new_FUNC'', None),
    (''_1gtk_1check_1menu_1item_1get_1active_FUNC'', None),
    (''_1gtk_1check_1menu_1item_1new_1with_1label_FUNC'', None),
    (''_1gtk_1check_1menu_1item_1set_1active_FUNC'', None),
    (''_1gtk_1check_1version_FUNC'', None),
    (''_1gtk_1clipboard_1clear_FUNC'', None),
    (''_1gtk_1clipboard_1get_FUNC'', None),
    (''_1gtk_1clipboard_1set_1with_1data_FUNC'', None),
    (''_1gtk_1clipboard_1wait_1for_1contents_FUNC'', None),
    (''_1gtk_1color_1selection_1dialog_1new_FUNC'', None),
    (''_1gtk_1color_1selection_1get_1current_1color_FUNC'', None),
    (''_1gtk_1color_1selection_1set_1current_1color_FUNC'', None),
    (''_1gtk_1color_1selection_1set_1has_1palette_FUNC'', None),
    (''_1gtk_1combo_1disable_1activate_FUNC'', None),
    (''_1gtk_1combo_1new_FUNC'', None),
    (''_1gtk_1combo_1set_1case_1sensitive_FUNC'', None),
    (''_1gtk_1combo_1set_1popdown_1strings_FUNC'', None),
    (''_1gtk_1container_1add_FUNC'', None),
    (''_1gtk_1container_1forall_FUNC'', None),
    (''_1gtk_1container_1get_1border_1width_FUNC'', None),
    (''_1gtk_1container_1get_1children_FUNC'', None),
    (''_1gtk_1container_1remove_FUNC'', None),
    (''_1gtk_1container_1resize_1children_FUNC'', None),
    (''_1gtk_1container_1set_1border_1width_FUNC'', None),
    (''_1gtk_1dialog_1add_1button_FUNC'', None),
    (''_1gtk_1dialog_1run_FUNC'', None),
    (''_1gtk_1drag_1begin_FUNC'', None),
    (''_1gtk_1drag_1check_1threshold_FUNC'', None),
    (''_1gtk_1drag_1dest_1find_1target_FUNC'', None),
    (''_1gtk_1drag_1dest_1set_FUNC'', None),
    (''_1gtk_1drag_1dest_1unset_FUNC'', None),
    (''_1gtk_1drag_1finish_FUNC'', None),
    (''_1gtk_1drag_1get_1data_FUNC'', None),
    (''_1gtk_1drawing_1area_1new_FUNC'', None),
    (''_1gtk_1editable_1copy_1clipboard_FUNC'', None),
    (''_1gtk_1editable_1cut_1clipboard_FUNC'', None),
    (''_1gtk_1editable_1delete_1selection_FUNC'', None),
    (''_1gtk_1editable_1delete_1text_FUNC'', None),
    (''_1gtk_1editable_1get_1chars_FUNC'', None),
    (''_1gtk_1editable_1get_1editable_FUNC'', None),
    (''_1gtk_1editable_1get_1position_FUNC'', None),
    (''_1gtk_1editable_1get_1selection_1bounds_FUNC'', None),
    (''_1gtk_1editable_1insert_1text_FUNC'', None),
    (''_1gtk_1editable_1paste_1clipboard_FUNC'', None),
    (''_1gtk_1editable_1select_1region_FUNC'', None),
    (''_1gtk_1editable_1set_1editable_FUNC'', None),
    (''_1gtk_1editable_1set_1position_FUNC'', None),
    (''_1gtk_1entry_1get_1invisible_1char_FUNC'', None),
    (''_1gtk_1entry_1get_1layout_FUNC'', None),
    (''_1gtk_1entry_1get_1max_1length_FUNC'', None),
    (''_1gtk_1entry_1get_1text_FUNC'', None),
    (''_1gtk_1entry_1get_1visibility_FUNC'', None),
    (''_1gtk_1entry_1new_FUNC'', None),
    (''_1gtk_1entry_1set_1activates_1default_FUNC'', None),
    (''_1gtk_1entry_1set_1alignment_FUNC'', None),
    (''_1gtk_1entry_1set_1has_1frame_FUNC'', None),
    (''_1gtk_1entry_1set_1invisible_1char_FUNC'', None),
    (''_1gtk_1entry_1set_1max_1length_FUNC'', None),
    (''_1gtk_1entry_1set_1text_FUNC'', None),
    (''_1gtk_1entry_1set_1visibility_FUNC'', None),
    (''_1gtk_1events_1pending_FUNC'', None),
    (''_1gtk_1file_1chooser_1add_1filter_FUNC'', None),
    (''_1gtk_1file_1chooser_1dialog_1new_FUNC'', None),
    (''_1gtk_1file_1chooser_1get_1current_1folder_FUNC'', None),
    (''_1gtk_1file_1chooser_1get_1filename_FUNC'', None),
    (''_1gtk_1file_1chooser_1get_1filenames_FUNC'', None),
    (''_1gtk_1file_1chooser_1set_1current_1folder_FUNC'', None),
    (''_1gtk_1file_1chooser_1set_1current_1name_FUNC'', None),
    (''_1gtk_1file_1chooser_1set_1extra_1widget_FUNC'', None),
    (''_1gtk_1file_1chooser_1set_1filename_FUNC'', None),
    (''_1gtk_1file_1chooser_1set_1select_1multiple_FUNC'', None),
    (''_1gtk_1file_1filter_1add_1pattern_FUNC'', None),
    (''_1gtk_1file_1filter_1new_FUNC'', None),
    (''_1gtk_1file_1filter_1set_1name_FUNC'', None),
    (''_1gtk_1file_1selection_1get_1filename_FUNC'', None),
    (''_1gtk_1file_1selection_1get_1selections_FUNC'', None),
    (''_1gtk_1file_1selection_1hide_1fileop_1buttons_FUNC'', None),
    (''_1gtk_1file_1selection_1new_FUNC'', None),
    (''_1gtk_1file_1selection_1set_1filename_FUNC'', None),
    (''_1gtk_1file_1selection_1set_1select_1multiple_FUNC'', None),
    (''_1gtk_1fixed_1move_FUNC'', None),
    (''_1gtk_1fixed_1new_FUNC'', None),
    (''_1gtk_1fixed_1set_1has_1window_FUNC'', None),
    (''_1gtk_1font_1selection_1dialog_1get_1font_1name_FUNC'', None),
    (''_1gtk_1font_1selection_1dialog_1new_FUNC'', None),
    (''_1gtk_1font_1selection_1dialog_1set_1font_1name_FUNC'', None),
    (''_1gtk_1frame_1get_1label_1widget_FUNC'', None),
    (''_1gtk_1frame_1new_FUNC'', None),
    (''_1gtk_1frame_1set_1label_FUNC'', None),
    (''_1gtk_1frame_1set_1label_1widget_FUNC'', None),
    (''_1gtk_1frame_1set_1shadow_1type_FUNC'', None),
    (''_1gtk_1get_1current_1event_FUNC'', None),
    (''_1gtk_1get_1current_1event_1state_FUNC'', None),
    (''_1gtk_1get_1current_1event_1time_FUNC'', None),
    (''_1gtk_1get_1default_1language_FUNC'', None),
    (''_1gtk_1get_1event_1widget_FUNC'', None),
    (''_1gtk_1grab_1add_FUNC'', None),
    (''_1gtk_1grab_1get_1current_FUNC'', None),
    (''_1gtk_1grab_1remove_FUNC'', None),
    (''_1gtk_1hbox_1new_FUNC'', None),
    (''_1gtk_1hscale_1new_FUNC'', None),
    (''_1gtk_1hscrollbar_1new_FUNC'', None),
    (''_1gtk_1hseparator_1new_FUNC'', None),
    (''_1gtk_1icon_1factory_1lookup_1default_FUNC'', None),
    (''_1gtk_1icon_1set_1render_1icon_FUNC'', None),
    (''_1gtk_1im_1context_1filter_1keypress_FUNC'', None),
    (''_1gtk_1im_1context_1focus_1in_FUNC'', None),
    (''_1gtk_1im_1context_1focus_1out_FUNC'', None),
    (''_1gtk_1im_1context_1get_1preedit_1string_FUNC'', None),
    (''_1gtk_1im_1context_1get_1type_FUNC'', None),
    (''_1gtk_1im_1context_1reset_FUNC'', None),
    (''_1gtk_1im_1context_1set_1client_1window_FUNC'', None),
    (''_1gtk_1im_1context_1set_1cursor_1location_FUNC'', None),
    (''_1gtk_1im_1multicontext_1append_1menuitems_FUNC'', None),
    (''_1gtk_1im_1multicontext_1new_FUNC'', None),
    (''_1gtk_1image_1menu_1item_1new_1with_1label_FUNC'', None),
    (''_1gtk_1image_1menu_1item_1set_1image_FUNC'', None),
    (''_1gtk_1image_1new_FUNC'', None),
    (''_1gtk_1image_1new_1from_1pixbuf_FUNC'', None),
    (''_1gtk_1image_1new_1from_1pixmap_FUNC'', None),
    (''_1gtk_1image_1set_1from_1pixbuf_FUNC'', None),
    (''_1gtk_1image_1set_1from_1pixmap_FUNC'', None),
    (''_1gtk_1init_1check_FUNC'', None),
    (''_1gtk_1label_1get_1mnemonic_1keyval_FUNC'', None),
    (''_1gtk_1label_1new_FUNC'', None),
    (''_1gtk_1label_1new_1with_1mnemonic_FUNC'', None),
    (''_1gtk_1label_1set_1attributes_FUNC'', None),
    (''_1gtk_1label_1set_1justify_FUNC'', None),
    (''_1gtk_1label_1set_1line_1wrap_FUNC'', None),
    (''_1gtk_1label_1set_1text__II_FUNC'', None),
    (''_1gtk_1label_1set_1text__I_3B_FUNC'', None),
    (''_1gtk_1label_1set_1text_1with_1mnemonic_FUNC'', None),
    (''_1gtk_1list_1append_1items_FUNC'', None),
    (''_1gtk_1list_1clear_1items_FUNC'', None),
    (''_1gtk_1list_1insert_1items_FUNC'', None),
    (''_1gtk_1list_1item_1new_1with_1label_FUNC'', None),
    (''_1gtk_1list_1remove_1items_FUNC'', None),
    (''_1gtk_1list_1select_1item_FUNC'', None),
    (''_1gtk_1list_1store_1append_FUNC'', None),
    (''_1gtk_1list_1store_1clear_FUNC'', None),
    (''_1gtk_1list_1store_1insert_FUNC'', None),
    (''_1gtk_1list_1store_1newv_FUNC'', None),
    (''_1gtk_1list_1store_1remove_FUNC'', None),
    (''_1gtk_1list_1store_1set__IIIII_FUNC'', None),
    (''_1gtk_1list_1store_1set__IIIJI_FUNC'', None),
    (''_1gtk_1list_1store_1set__IIILorg_eclipse_swt_internal_gtk_GdkColor_2I_FUNC'', None),
    (''_1gtk_1list_1store_1set__IIIZI_FUNC'', None),
    (''_1gtk_1list_1store_1set__III_3BI_FUNC'', None),
    (''_1gtk_1list_1unselect_1all_FUNC'', None),
    (''_1gtk_1list_1unselect_1item_FUNC'', None),
    (''_1gtk_1main_FUNC'', None),
    (''_1gtk_1main_1do_1event_FUNC'', None),
    (''_1gtk_1main_1iteration_FUNC'', None),
    (''_1gtk_1major_1version_FUNC'', None),
    (''_1gtk_1menu_1bar_1new_FUNC'', None),
    (''_1gtk_1menu_1item_1remove_1submenu_FUNC'', None),
    (''_1gtk_1menu_1item_1set_1submenu_FUNC'', None),
    (''_1gtk_1menu_1new_FUNC'', None),
    (''_1gtk_1menu_1popdown_FUNC'', None),
    (''_1gtk_1menu_1popup_FUNC'', None),
    (''_1gtk_1menu_1shell_1deactivate_FUNC'', None),
    (''_1gtk_1menu_1shell_1insert_FUNC'', None),
    (''_1gtk_1menu_1shell_1select_1item_FUNC'', None),
    (''_1gtk_1message_1dialog_1new_FUNC'', None),
    (''_1gtk_1micro_1version_FUNC'', None),
    (''_1gtk_1minor_1version_FUNC'', None),
    (''_1gtk_1misc_1set_1alignment_FUNC'', None),
    (''_1gtk_1notebook_1get_1current_1page_FUNC'', None),
    (''_1gtk_1notebook_1get_1scrollable_FUNC'', None),
    (''_1gtk_1notebook_1insert_1page_FUNC'', None),
    (''_1gtk_1notebook_1new_FUNC'', None),
    (''_1gtk_1notebook_1remove_1page_FUNC'', None),
    (''_1gtk_1notebook_1set_1current_1page_FUNC'', None),
    (''_1gtk_1notebook_1set_1scrollable_FUNC'', None),
    (''_1gtk_1notebook_1set_1show_1tabs_FUNC'', None),
    (''_1gtk_1notebook_1set_1tab_1pos_FUNC'', None),
    (''_1gtk_1object_1sink_FUNC'', None),
    (''_1gtk_1paint_1focus_FUNC'', None),
    (''_1gtk_1paint_1handle_FUNC'', None),
    (''_1gtk_1plug_1get_1id_FUNC'', None),
    (''_1gtk_1plug_1new_FUNC'', None),
    (''_1gtk_1progress_1bar_1new_FUNC'', None),
    (''_1gtk_1progress_1bar_1pulse_FUNC'', None),
    (''_1gtk_1progress_1bar_1set_1fraction_FUNC'', None),
    (''_1gtk_1progress_1bar_1set_1orientation_FUNC'', None),
    (''_1gtk_1radio_1button_1get_1group_FUNC'', None),
    (''_1gtk_1radio_1button_1new_FUNC'', None),
    (''_1gtk_1radio_1menu_1item_1get_1group_FUNC'', None),
    (''_1gtk_1radio_1menu_1item_1new_FUNC'', None),
    (''_1gtk_1radio_1menu_1item_1new_1with_1label_FUNC'', None),
    (''_1gtk_1range_1get_1adjustment_FUNC'', None),
    (''_1gtk_1range_1set_1increments_FUNC'', None),
    (''_1gtk_1range_1set_1inverted_FUNC'', None),
    (''_1gtk_1range_1set_1range_FUNC'', None),
    (''_1gtk_1range_1set_1value_FUNC'', None),
    (''_1gtk_1rc_1parse_1string_FUNC'', None),
    (''_1gtk_1rc_1style_1get_1bg_1pixmap_1name_FUNC'', None),
    (''_1gtk_1rc_1style_1get_1color_1flags_FUNC'', None),
    (''_1gtk_1rc_1style_1set_1bg_FUNC'', None),
    (''_1gtk_1rc_1style_1set_1bg_1pixmap_1name_FUNC'', None),
    (''_1gtk_1rc_1style_1set_1color_1flags_FUNC'', None),
    (''_1gtk_1scale_1set_1digits_FUNC'', None),
    (''_1gtk_1scale_1set_1draw_1value_FUNC'', None),
    (''_1gtk_1scrolled_1window_1get_1hadjustment_FUNC'', None),
    (''_1gtk_1scrolled_1window_1get_1policy_FUNC'', None),
    (''_1gtk_1scrolled_1window_1get_1shadow_1type_FUNC'', None),
    (''_1gtk_1scrolled_1window_1get_1vadjustment_FUNC'', None),
    (''_1gtk_1scrolled_1window_1new_FUNC'', None),
    (''_1gtk_1scrolled_1window_1set_1placement_FUNC'', None),
    (''_1gtk_1scrolled_1window_1set_1policy_FUNC'', None),
    (''_1gtk_1scrolled_1window_1set_1shadow_1type_FUNC'', None),
    (''_1gtk_1selection_1data_1free_FUNC'', None),
    (''_1gtk_1selection_1data_1set_FUNC'', None),
    (''_1gtk_1separator_1menu_1item_1new_FUNC'', None),
    (''_1gtk_1set_1locale_FUNC'', None),
    (''_1gtk_1settings_1get_1default_FUNC'', None),
    (''_1gtk_1socket_1get_1id_FUNC'', None),
    (''_1gtk_1socket_1new_FUNC'', None),
    (''_1gtk_1spin_1button_1get_1adjustment_FUNC'', None),
    (''_1gtk_1spin_1button_1get_1digits_FUNC'', None),
    (''_1gtk_1spin_1button_1new_FUNC'', None),
    (''_1gtk_1spin_1button_1set_1digits_FUNC'', None),
    (''_1gtk_1spin_1button_1set_1increments_FUNC'', None),
    (''_1gtk_1spin_1button_1set_1range_FUNC'', None),
    (''_1gtk_1spin_1button_1set_1value_FUNC'', None),
    (''_1gtk_1spin_1button_1set_1wrap_FUNC'', None),
    (''_1gtk_1style_1get_1base_FUNC'', None),
    (''_1gtk_1style_1get_1bg_FUNC'', None),
    (''_1gtk_1style_1get_1black_FUNC'', None),
    (''_1gtk_1style_1get_1dark_FUNC'', None),
    (''_1gtk_1style_1get_1fg_FUNC'', None),
    (''_1gtk_1style_1get_1font_1desc_FUNC'', None),
    (''_1gtk_1style_1get_1light_FUNC'', None),
    (''_1gtk_1style_1get_1text_FUNC'', None),
    (''_1gtk_1style_1get_1xthickness_FUNC'', None),
    (''_1gtk_1style_1get_1ythickness_FUNC'', None),
    (''_1gtk_1target_1list_1new_FUNC'', None),
    (''_1gtk_1target_1list_1unref_FUNC'', None),
    (''_1gtk_1text_1buffer_1copy_1clipboard_FUNC'', None),
    (''_1gtk_1text_1buffer_1cut_1clipboard_FUNC'', None),
    (''_1gtk_1text_1buffer_1delete_FUNC'', None),
    (''_1gtk_1text_1buffer_1get_1bounds_FUNC'', None),
    (''_1gtk_1text_1buffer_1get_1char_1count_FUNC'', None),
    (''_1gtk_1text_1buffer_1get_1end_1iter_FUNC'', None),
    (''_1gtk_1text_1buffer_1get_1insert_FUNC'', None),
    (''_1gtk_1text_1buffer_1get_1iter_1at_1line_FUNC'', None),
    (''_1gtk_1text_1buffer_1get_1iter_1at_1mark_FUNC'', None),
    (''_1gtk_1text_1buffer_1get_1iter_1at_1offset_FUNC'', None),
    (''_1gtk_1text_1buffer_1get_1line_1count_FUNC'', None),
    (''_1gtk_1text_1buffer_1get_1selection_1bound_FUNC'', None),
    (''_1gtk_1text_1buffer_1get_1selection_1bounds_FUNC'', None),
    (''_1gtk_1text_1buffer_1get_1text_FUNC'', None),
    (''_1gtk_1text_1buffer_1insert__II_3BI_FUNC'', None),
    (''_1gtk_1text_1buffer_1insert__I_3B_3BI_FUNC'', None),
    (''_1gtk_1text_1buffer_1move_1mark_FUNC'', None),
    (''_1gtk_1text_1buffer_1paste_1clipboard_FUNC'', None),
    (''_1gtk_1text_1buffer_1place_1cursor_FUNC'', None),
    (''_1gtk_1text_1buffer_1set_1text_FUNC'', None),
    (''_1gtk_1text_1iter_1get_1line_FUNC'', None),
    (''_1gtk_1text_1iter_1get_1offset_FUNC'', None),
    (''_1gtk_1text_1view_1buffer_1to_1window_1coords_FUNC'', None),
    (''_1gtk_1text_1view_1get_1buffer_FUNC'', None),
    (''_1gtk_1text_1view_1get_1editable_FUNC'', None),
    (''_1gtk_1text_1view_1get_1iter_1at_1location_FUNC'', None),
    (''_1gtk_1text_1view_1get_1iter_1location_FUNC'', None),
    (''_1gtk_1text_1view_1get_1line_1at_1y_FUNC'', None),
    (''_1gtk_1text_1view_1get_1visible_1rect_FUNC'', None),
    (''_1gtk_1text_1view_1get_1window_FUNC'', None),
    (''_1gtk_1text_1view_1new_FUNC'', None),
    (''_1gtk_1text_1view_1scroll_1mark_1onscreen_FUNC'', None),
    (''_1gtk_1text_1view_1scroll_1to_1iter_FUNC'', None),
    (''_1gtk_1text_1view_1set_1editable_FUNC'', None),
    (''_1gtk_1text_1view_1set_1justification_FUNC'', None),
    (''_1gtk_1text_1view_1set_1tabs_FUNC'', None),
    (''_1gtk_1text_1view_1set_1wrap_1mode_FUNC'', None),
    (''_1gtk_1text_1view_1window_1to_1buffer_1coords_FUNC'', None),
    (''_1gtk_1timeout_1add_FUNC'', None),
    (''_1gtk_1timeout_1remove_FUNC'', None),
    (''_1gtk_1toggle_1button_1get_1active_FUNC'', None),
    (''_1gtk_1toggle_1button_1new_FUNC'', None),
    (''_1gtk_1toggle_1button_1set_1active_FUNC'', None),
    (''_1gtk_1toggle_1button_1set_1mode_FUNC'', None),
    (''_1gtk_1toolbar_1insert_1widget_FUNC'', None),
    (''_1gtk_1toolbar_1new_FUNC'', None),
    (''_1gtk_1toolbar_1set_1orientation_FUNC'', None),
    (''_1gtk_1tooltips_1disable_FUNC'', None),
    (''_1gtk_1tooltips_1enable_FUNC'', None),
    (''_1gtk_1tooltips_1new_FUNC'', None),
    (''_1gtk_1tooltips_1set_1tip_FUNC'', None),
    (''_1gtk_1tree_1model_1get__III_3II_FUNC'', None),
    (''_1gtk_1tree_1model_1get__III_3JI_FUNC'', None),
    (''_1gtk_1tree_1model_1get_1iter_FUNC'', None),
    (''_1gtk_1tree_1model_1get_1iter_1first_FUNC'', None),
    (''_1gtk_1tree_1model_1get_1n_1columns_FUNC'', None),
    (''_1gtk_1tree_1model_1get_1path_FUNC'', None),
    (''_1gtk_1tree_1model_1get_1type_FUNC'', None),
    (''_1gtk_1tree_1model_1iter_1children_FUNC'', None),
    (''_1gtk_1tree_1model_1iter_1n_1children_FUNC'', None),
    (''_1gtk_1tree_1model_1iter_1next_FUNC'', None),
    (''_1gtk_1tree_1model_1iter_1nth_1child_FUNC'', None),
    (''_1gtk_1tree_1path_1append_1index_FUNC'', None),
    (''_1gtk_1tree_1path_1compare_FUNC'', None),
    (''_1gtk_1tree_1path_1down_FUNC'', None),
    (''_1gtk_1tree_1path_1free_FUNC'', None),
    (''_1gtk_1tree_1path_1get_1depth_FUNC'', None),
    (''_1gtk_1tree_1path_1get_1indices_FUNC'', None),
    (''_1gtk_1tree_1path_1new_FUNC'', None),
    (''_1gtk_1tree_1path_1new_1first_FUNC'', None),
    (''_1gtk_1tree_1path_1new_1from_1string__I_FUNC'', None),
    (''_1gtk_1tree_1path_1new_1from_1string___3B_FUNC'', None),
    (''_1gtk_1tree_1path_1next_FUNC'', None),
    (''_1gtk_1tree_1path_1prev_FUNC'', None),
    (''_1gtk_1tree_1path_1up_FUNC'', None),
    (''_1gtk_1tree_1selection_1get_1selected_FUNC'', None),
    (''_1gtk_1tree_1selection_1get_1selected_1rows_FUNC'', None),
    (''_1gtk_1tree_1selection_1path_1is_1selected_FUNC'', None),
    (''_1gtk_1tree_1selection_1select_1all_FUNC'', None),
    (''_1gtk_1tree_1selection_1select_1iter_FUNC'', None),
    (''_1gtk_1tree_1selection_1selected_1foreach_FUNC'', None),
    (''_1gtk_1tree_1selection_1set_1mode_FUNC'', None),
    (''_1gtk_1tree_1selection_1unselect_1all_FUNC'', None),
    (''_1gtk_1tree_1selection_1unselect_1iter_FUNC'', None),
    (''_1gtk_1tree_1store_1append_FUNC'', None),
    (''_1gtk_1tree_1store_1clear_FUNC'', None),
    (''_1gtk_1tree_1store_1insert_FUNC'', None),
    (''_1gtk_1tree_1store_1newv_FUNC'', None),
    (''_1gtk_1tree_1store_1remove_FUNC'', None),
    (''_1gtk_1tree_1store_1set__IIIII_FUNC'', None),
    (''_1gtk_1tree_1store_1set__IIIJI_FUNC'', None),
    (''_1gtk_1tree_1store_1set__IIILorg_eclipse_swt_internal_gtk_GdkColor_2I_FUNC'', None),
    (''_1gtk_1tree_1store_1set__IIIZI_FUNC'', None),
    (''_1gtk_1tree_1store_1set__III_3BI_FUNC'', None),
    (''_1gtk_1tree_1view_1collapse_1row_FUNC'', None),
    (''_1gtk_1tree_1view_1column_1add_1attribute_FUNC'', None),
    (''_1gtk_1tree_1view_1column_1cell_1get_1position_FUNC'', None),
    (''_1gtk_1tree_1view_1column_1cell_1get_1size_FUNC'', None),
    (''_1gtk_1tree_1view_1column_1cell_1set_1cell_1data_FUNC'', None),
    (''_1gtk_1tree_1view_1column_1clear_FUNC'', None),
    (''_1gtk_1tree_1view_1column_1get_1cell_1renderers_FUNC'', None),
    (''_1gtk_1tree_1view_1column_1get_1fixed_1width_FUNC'', None),
    (''_1gtk_1tree_1view_1column_1get_1reorderable_FUNC'', None),
    (''_1gtk_1tree_1view_1column_1get_1resizable_FUNC'', None),
    (''_1gtk_1tree_1view_1column_1get_1spacing_FUNC'', None),
    (''_1gtk_1tree_1view_1column_1get_1visible_FUNC'', None),
    (''_1gtk_1tree_1view_1column_1get_1width_FUNC'', None),
    (''_1gtk_1tree_1view_1column_1new_FUNC'', None),
    (''_1gtk_1tree_1view_1column_1pack_1end_FUNC'', None),
    (''_1gtk_1tree_1view_1column_1pack_1start_FUNC'', None),
    (''_1gtk_1tree_1view_1column_1set_1alignment_FUNC'', None),
    (''_1gtk_1tree_1view_1column_1set_1cell_1data_1func_FUNC'', None),
    (''_1gtk_1tree_1view_1column_1set_1clickable_FUNC'', None),
    (''_1gtk_1tree_1view_1column_1set_1fixed_1width_FUNC'', None),
    (''_1gtk_1tree_1view_1column_1set_1reorderable_FUNC'', None),
    (''_1gtk_1tree_1view_1column_1set_1resizable_FUNC'', None),
    (''_1gtk_1tree_1view_1column_1set_1sizing_FUNC'', None),
    (''_1gtk_1tree_1view_1column_1set_1title_FUNC'', None),
    (''_1gtk_1tree_1view_1column_1set_1visible_FUNC'', None),
    (''_1gtk_1tree_1view_1column_1set_1widget_FUNC'', None),
    (''_1gtk_1tree_1view_1expand_1row_FUNC'', None),
    (''_1gtk_1tree_1view_1get_1bin_1window_FUNC'', None),
    (''_1gtk_1tree_1view_1get_1cell_1area_FUNC'', None),
    (''_1gtk_1tree_1view_1get_1column_FUNC'', None),
    (''_1gtk_1tree_1view_1get_1columns_FUNC'', None),
    (''_1gtk_1tree_1view_1get_1cursor_FUNC'', None),
    (''_1gtk_1tree_1view_1get_1expander_1column_FUNC'', None),
    (''_1gtk_1tree_1view_1get_1headers_1visible_FUNC'', None),
    (''_1gtk_1tree_1view_1get_1path_1at_1pos_FUNC'', None),
    (''_1gtk_1tree_1view_1get_1rules_1hint_FUNC'', None),
    (''_1gtk_1tree_1view_1get_1selection_FUNC'', None),
    (''_1gtk_1tree_1view_1get_1visible_1rect_FUNC'', None),
    (''_1gtk_1tree_1view_1insert_1column_FUNC'', None),
    (''_1gtk_1tree_1view_1move_1column_1after_FUNC'', None),
    (''_1gtk_1tree_1view_1new_1with_1model_FUNC'', None),
    (''_1gtk_1tree_1view_1remove_1column_FUNC'', None),
    (''_1gtk_1tree_1view_1row_1expanded_FUNC'', None),
    (''_1gtk_1tree_1view_1scroll_1to_1cell_FUNC'', None),
    (''_1gtk_1tree_1view_1scroll_1to_1point_FUNC'', None),
    (''_1gtk_1tree_1view_1set_1cursor_FUNC'', None),
    (''_1gtk_1tree_1view_1set_1drag_1dest_1row_FUNC'', None),
    (''_1gtk_1tree_1view_1set_1headers_1visible_FUNC'', None),
    (''_1gtk_1tree_1view_1set_1model_FUNC'', None),
    (''_1gtk_1tree_1view_1set_1rules_1hint_FUNC'', None),
    (''_1gtk_1tree_1view_1tree_1to_1widget_1coords_FUNC'', None),
    (''_1gtk_1tree_1view_1unset_1rows_1drag_1dest_FUNC'', None),
    (''_1gtk_1tree_1view_1widget_1to_1tree_1coords_FUNC'', None),
    (''_1gtk_1vbox_1new_FUNC'', None),
    (''_1gtk_1vscale_1new_FUNC'', None),
    (''_1gtk_1vscrollbar_1new_FUNC'', None),
    (''_1gtk_1vseparator_1new_FUNC'', None),
    (''_1gtk_1widget_1add_1accelerator_FUNC'', None),
    (''_1gtk_1widget_1add_1events_FUNC'', None),
    (''_1gtk_1widget_1child_1focus_FUNC'', None),
    (''_1gtk_1widget_1create_1pango_1layout__II_FUNC'', None),
    (''_1gtk_1widget_1create_1pango_1layout__I_3B_FUNC'', None),
    (''_1gtk_1widget_1destroy_FUNC'', None),
    (''_1gtk_1widget_1event_FUNC'', None),
    (''_1gtk_1widget_1get_1child_1visible_FUNC'', None),
    (''_1gtk_1widget_1get_1default_1direction_FUNC'', None),
    (''_1gtk_1widget_1get_1default_1style_FUNC'', None),
    (''_1gtk_1widget_1get_1direction_FUNC'', None),
    (''_1gtk_1widget_1get_1events_FUNC'', None),
    (''_1gtk_1widget_1get_1modifier_1style_FUNC'', None),
    (''_1gtk_1widget_1get_1pango_1context_FUNC'', None),
    (''_1gtk_1widget_1get_1parent_FUNC'', None),
    (''_1gtk_1widget_1get_1size_1request_FUNC'', None),
    (''_1gtk_1widget_1get_1style_FUNC'', None),
    (''_1gtk_1widget_1get_1toplevel_FUNC'', None),
    (''_1gtk_1widget_1grab_1focus_FUNC'', None),
    (''_1gtk_1widget_1hide_FUNC'', None),
    (''_1gtk_1widget_1is_1focus_FUNC'', None),
    (''_1gtk_1widget_1map_FUNC'', None),
    (''_1gtk_1widget_1mnemonic_1activate_FUNC'', None),
    (''_1gtk_1widget_1modify_1base_FUNC'', None),
    (''_1gtk_1widget_1modify_1bg_FUNC'', None),
    (''_1gtk_1widget_1modify_1fg_FUNC'', None),
    (''_1gtk_1widget_1modify_1font_FUNC'', None),
    (''_1gtk_1widget_1modify_1style_FUNC'', None),
    (''_1gtk_1widget_1modify_1text_FUNC'', None),
    (''_1gtk_1widget_1realize_FUNC'', None),
    (''_1gtk_1widget_1remove_1accelerator_FUNC'', None),
    (''_1gtk_1widget_1reparent_FUNC'', None),
    (''_1gtk_1widget_1set_1default_1direction_FUNC'', None),
    (''_1gtk_1widget_1set_1direction_FUNC'', None),
    (''_1gtk_1widget_1set_1double_1buffered_FUNC'', None),
    (''_1gtk_1widget_1set_1name_FUNC'', None),
    (''_1gtk_1widget_1set_1redraw_1on_1allocate_FUNC'', None),
    (''_1gtk_1widget_1set_1sensitive_FUNC'', None),
    (''_1gtk_1widget_1set_1size_1request_FUNC'', None),
    (''_1gtk_1widget_1set_1state_FUNC'', None),
    (''_1gtk_1widget_1shape_1combine_1mask_FUNC'', None),
    (''_1gtk_1widget_1show_FUNC'', None),
    (''_1gtk_1widget_1show_1now_FUNC'', None),
    (''_1gtk_1widget_1size_1allocate_FUNC'', None),
    (''_1gtk_1widget_1size_1request_FUNC'', None),
    (''_1gtk_1widget_1style_1get__I_3B_3II_FUNC'', None),
    (''_1gtk_1widget_1style_1get__I_3B_3JI_FUNC'', None),
    (''_1gtk_1widget_1unrealize_FUNC'', None),
    (''_1gtk_1window_1activate_1default_FUNC'', None),
    (''_1gtk_1window_1add_1accel_1group_FUNC'', None),
    (''_1gtk_1window_1deiconify_FUNC'', None),
    (''_1gtk_1window_1get_1focus_FUNC'', None),
    (''_1gtk_1window_1get_1mnemonic_1modifier_FUNC'', None),
    (''_1gtk_1window_1get_1position_FUNC'', None),
    (''_1gtk_1window_1get_1size_FUNC'', None),
    (''_1gtk_1window_1iconify_FUNC'', None),
    (''_1gtk_1window_1maximize_FUNC'', None),
    (''_1gtk_1window_1move_FUNC'', None),
    (''_1gtk_1window_1new_FUNC'', None),
    (''_1gtk_1window_1present_FUNC'', None),
    (''_1gtk_1window_1remove_1accel_1group_FUNC'', None),
    (''_1gtk_1window_1resize_FUNC'', None),
    (''_1gtk_1window_1set_1default_FUNC'', None),
    (''_1gtk_1window_1set_1destroy_1with_1parent_FUNC'', None),
    (''_1gtk_1window_1set_1geometry_1hints_FUNC'', None),
    (''_1gtk_1window_1set_1modal_FUNC'', None),
    (''_1gtk_1window_1set_1resizable_FUNC'', None),
    (''_1gtk_1window_1set_1title_FUNC'', None),
    (''_1gtk_1window_1set_1transient_1for_FUNC'', None),
    (''_1gtk_1window_1set_1type_1hint_FUNC'', None),
    (''_1gtk_1window_1unmaximize_FUNC'', None),
    (''_1pango_1attr_1background_1new_FUNC'', None),
    (''_1pango_1attr_1font_1desc_1new_FUNC'', None),
    (''_1pango_1attr_1foreground_1new_FUNC'', None),
    (''_1pango_1attr_1list_1change_FUNC'', None),
    (''_1pango_1attr_1list_1insert_FUNC'', None),
    (''_1pango_1attr_1list_1new_FUNC'', None),
    (''_1pango_1attr_1list_1unref_FUNC'', None),
    (''_1pango_1attr_1shape_1new_FUNC'', None),
    (''_1pango_1attr_1strikethrough_1new_FUNC'', None),
    (''_1pango_1attr_1underline_1new_FUNC'', None),
    (''_1pango_1attr_1weight_1new_FUNC'', None),
    (''_1pango_1context_1get_1base_1dir_FUNC'', None),
    (''_1pango_1context_1get_1language_FUNC'', None),
    (''_1pango_1context_1get_1metrics_FUNC'', None),
    (''_1pango_1context_1list_1families_FUNC'', None),
    (''_1pango_1context_1set_1base_1dir_FUNC'', None),
    (''_1pango_1context_1set_1language_FUNC'', None),
    (''_1pango_1font_1description_1copy_FUNC'', None),
    (''_1pango_1font_1description_1free_FUNC'', None),
    (''_1pango_1font_1description_1from_1string_FUNC'', None),
    (''_1pango_1font_1description_1get_1family_FUNC'', None),
    (''_1pango_1font_1description_1get_1size_FUNC'', None),
    (''_1pango_1font_1description_1get_1style_FUNC'', None),
    (''_1pango_1font_1description_1get_1weight_FUNC'', None),
    (''_1pango_1font_1description_1new_FUNC'', None),
    (''_1pango_1font_1description_1set_1family_FUNC'', None),
    (''_1pango_1font_1description_1set_1size_FUNC'', None),
    (''_1pango_1font_1description_1set_1stretch_FUNC'', None),
    (''_1pango_1font_1description_1set_1style_FUNC'', None),
    (''_1pango_1font_1description_1set_1weight_FUNC'', None),
    (''_1pango_1font_1description_1to_1string_FUNC'', None),
    (''_1pango_1font_1face_1describe_FUNC'', None),
    (''_1pango_1font_1family_1get_1name_FUNC'', None),
    (''_1pango_1font_1family_1list_1faces_FUNC'', None),
    (''_1pango_1font_1get_1metrics_FUNC'', None),
    (''_1pango_1font_1metrics_1get_1approximate_1char_1width_FUNC'', None),
    (''_1pango_1font_1metrics_1get_1ascent_FUNC'', None),
    (''_1pango_1font_1metrics_1get_1descent_FUNC'', None),
    (''_1pango_1font_1metrics_1unref_FUNC'', None),
    (''_1pango_1language_1from_1string_FUNC'', None),
    (''_1pango_1layout_1context_1changed_FUNC'', None),
    (''_1pango_1layout_1get_1alignment_FUNC'', None),
    (''_1pango_1layout_1get_1attributes_FUNC'', None),
    (''_1pango_1layout_1get_1iter_FUNC'', None),
    (''_1pango_1layout_1get_1line_FUNC'', None),
    (''_1pango_1layout_1get_1line_1count_FUNC'', None),
    (''_1pango_1layout_1get_1log_1attrs_FUNC'', None),
    (''_1pango_1layout_1get_1size_FUNC'', None),
    (''_1pango_1layout_1get_1spacing_FUNC'', None),
    (''_1pango_1layout_1get_1tabs_FUNC'', None),
    (''_1pango_1layout_1get_1text_FUNC'', None),
    (''_1pango_1layout_1get_1width_FUNC'', None),
    (''_1pango_1layout_1index_1to_1pos_FUNC'', None),
    (''_1pango_1layout_1iter_1free_FUNC'', None),
    (''_1pango_1layout_1iter_1get_1index_FUNC'', None),
    (''_1pango_1layout_1iter_1get_1line_1extents_FUNC'', None),
    (''_1pango_1layout_1iter_1get_1run_FUNC'', None),
    (''_1pango_1layout_1iter_1next_1line_FUNC'', None),
    (''_1pango_1layout_1iter_1next_1run_FUNC'', None),
    (''_1pango_1layout_1line_1get_1extents_FUNC'', None),
    (''_1pango_1layout_1line_1x_1to_1index_FUNC'', None),
    (''_1pango_1layout_1new_FUNC'', None),
    (''_1pango_1layout_1set_1alignment_FUNC'', None),
    (''_1pango_1layout_1set_1attributes_FUNC'', None),
    (''_1pango_1layout_1set_1auto_1dir_FUNC'', None),
    (''_1pango_1layout_1set_1font_1description_FUNC'', None),
    (''_1pango_1layout_1set_1single_1paragraph_1mode_FUNC'', None),
    (''_1pango_1layout_1set_1spacing_FUNC'', None),
    (''_1pango_1layout_1set_1tabs_FUNC'', None),
    (''_1pango_1layout_1set_1text_FUNC'', None),
    (''_1pango_1layout_1set_1width_FUNC'', None),
    (''_1pango_1layout_1set_1wrap_FUNC'', None),
    (''_1pango_1layout_1xy_1to_1index_FUNC'', None),
    (''_1pango_1tab_1array_1free_FUNC'', None),
    (''_1pango_1tab_1array_1get_1size_FUNC'', None),
    (''_1pango_1tab_1array_1get_1tabs_FUNC'', None),
    (''_1pango_1tab_1array_1new_FUNC'', None),
    (''_1pango_1tab_1array_1set_1tab_FUNC'', None),
    (''g_1main_1context_1wakeup_FUNC'', None),
    (''getenv_FUNC'', None),
    (''localeconv_1decimal_1point_FUNC'', None),
    (''memmove__III_FUNC'', None),
    (''memmove__ILorg_eclipse_swt_internal_gtk_GInterfaceInfo_2I_FUNC'', None),
    (''memmove__ILorg_eclipse_swt_internal_gtk_GObjectClass_2_FUNC'', None),
    (''memmove__ILorg_eclipse_swt_internal_gtk_GTypeInfo_2I_FUNC'', None),
    (''memmove__ILorg_eclipse_swt_internal_gtk_GdkEventButton_2I_FUNC'', None),
    (''memmove__ILorg_eclipse_swt_internal_gtk_GtkAdjustment_2_FUNC'', None),
    (''memmove__ILorg_eclipse_swt_internal_gtk_GtkFixed_2_FUNC'', None),
    (''memmove__ILorg_eclipse_swt_internal_gtk_GtkTargetEntry_2I_FUNC'', None),
    (''memmove__ILorg_eclipse_swt_internal_gtk_GtkWidgetClass_2_FUNC'', None),
    (''memmove__ILorg_eclipse_swt_internal_gtk_PangoAttribute_2I_FUNC'', None),
    (''memmove__ILorg_eclipse_swt_internal_gtk_XButtonEvent_2I_FUNC'', None),
    (''memmove__ILorg_eclipse_swt_internal_gtk_XClientMessageEvent_2I_FUNC'', None),
    (''memmove__ILorg_eclipse_swt_internal_gtk_XCrossingEvent_2I_FUNC'', None),
    (''memmove__ILorg_eclipse_swt_internal_gtk_XExposeEvent_2I_FUNC'', None),
    (''memmove__ILorg_eclipse_swt_internal_gtk_XFocusChangeEvent_2I_FUNC'', None),
    (''memmove__I_3BI_FUNC'', None),
    (''memmove__I_3CI_FUNC'', None),
    (''memmove__I_3DI_FUNC'', None),
    (''memmove__I_3II_FUNC'', None),
    (''memmove__I_3JI_FUNC'', None),
    (''memmove__Lorg_eclipse_swt_internal_gtk_GObjectClass_2I_FUNC'', None),
    (''memmove__Lorg_eclipse_swt_internal_gtk_GTypeQuery_2II_FUNC'', None),
    (''memmove__Lorg_eclipse_swt_internal_gtk_GdkColor_2II_FUNC'', None),
    (''memmove__Lorg_eclipse_swt_internal_gtk_GdkDragContext_2II_FUNC'', None),
    (''memmove__Lorg_eclipse_swt_internal_gtk_GdkEventButton_2II_FUNC'', None),
    (''memmove__Lorg_eclipse_swt_internal_gtk_GdkEventCrossing_2II_FUNC'', None),
    (''memmove__Lorg_eclipse_swt_internal_gtk_GdkEventExpose_2II_FUNC'', None),
    (''memmove__Lorg_eclipse_swt_internal_gtk_GdkEventFocus_2II_FUNC'', None),
    (''memmove__Lorg_eclipse_swt_internal_gtk_GdkEventKey_2II_FUNC'', None),
    (''memmove__Lorg_eclipse_swt_internal_gtk_GdkEventMotion_2II_FUNC'', None),
    (''memmove__Lorg_eclipse_swt_internal_gtk_GdkEventScroll_2II_FUNC'', None),
    (''memmove__Lorg_eclipse_swt_internal_gtk_GdkEventVisibility_2II_FUNC'', None),
    (''memmove__Lorg_eclipse_swt_internal_gtk_GdkEventWindowState_2II_FUNC'', None),
    (''memmove__Lorg_eclipse_swt_internal_gtk_GdkEvent_2II_FUNC'', None),
    (''memmove__Lorg_eclipse_swt_internal_gtk_GdkImage_2I_FUNC'', None),
    (''memmove__Lorg_eclipse_swt_internal_gtk_GdkRectangle_2II_FUNC'', None),
    (''memmove__Lorg_eclipse_swt_internal_gtk_GdkVisual_2I_FUNC'', None),
    (''memmove__Lorg_eclipse_swt_internal_gtk_GtkAdjustment_2I_FUNC'', None),
    (''memmove__Lorg_eclipse_swt_internal_gtk_GtkBorder_2II_FUNC'', None),
    (''memmove__Lorg_eclipse_swt_internal_gtk_GtkColorSelectionDialog_2I_FUNC'', None),
    (''memmove__Lorg_eclipse_swt_internal_gtk_GtkCombo_2I_FUNC'', None),
    (''memmove__Lorg_eclipse_swt_internal_gtk_GtkFileSelection_2I_FUNC'', None),
    (''memmove__Lorg_eclipse_swt_internal_gtk_GtkFixed_2I_FUNC'', None),
    (''memmove__Lorg_eclipse_swt_internal_gtk_GtkSelectionData_2II_FUNC'', None),
    (''memmove__Lorg_eclipse_swt_internal_gtk_GtkTargetPair_2II_FUNC'', None),
    (''memmove__Lorg_eclipse_swt_internal_gtk_GtkWidgetClass_2I_FUNC'', None),
    (''memmove__Lorg_eclipse_swt_internal_gtk_PangoAttribute_2II_FUNC'', None),
    (''memmove__Lorg_eclipse_swt_internal_gtk_PangoItem_2II_FUNC'', None),
    (''memmove__Lorg_eclipse_swt_internal_gtk_PangoLayoutLine_2II_FUNC'', None),
    (''memmove__Lorg_eclipse_swt_internal_gtk_PangoLayoutRun_2II_FUNC'', None),
    (''memmove__Lorg_eclipse_swt_internal_gtk_PangoLogAttr_2II_FUNC'', None),
    (''memmove__Lorg_eclipse_swt_internal_gtk_XButtonEvent_2II_FUNC'', None),
    (''memmove__Lorg_eclipse_swt_internal_gtk_XCrossingEvent_2II_FUNC'', None),
    (''memmove__Lorg_eclipse_swt_internal_gtk_XExposeEvent_2II_FUNC'', None),
    (''memmove__Lorg_eclipse_swt_internal_gtk_XFocusChangeEvent_2II_FUNC'', None),
    (''memmove__Lorg_eclipse_swt_internal_gtk_XVisibilityEvent_2II_FUNC'', None),
    (''memmove___3BII_FUNC'', None),
    (''memmove___3CII_FUNC'', None),
    (''memmove___3III_FUNC'', None),
    (''memmove___3I_3BI_FUNC'', None),
    (''memmove___3JII_FUNC'', None),
    (''memset_FUNC'', None),
    (''strlen_FUNC'', None)
  ]"

text \<open>
  The value of each enumerator, as C assigns it: an enumerator with an explicit value
  has that value, the first one without has 0, and any other one the value of its
  predecessor plus one.
\<close>

fun enum_values_from :: "int \<Rightarrow> enum_declaration \<Rightarrow> (string \<times> int) list" where
  "enum_values_from n [] = []"
| "enum_values_from n ((name, None) # rest) = (name, n) # enum_values_from (n + 1) rest"
| "enum_values_from n ((name, Some v) # rest) = (name, v) # enum_values_from (v + 1) rest"

definition enum_values :: "enum_declaration \<Rightarrow> (string \<times> int) list" where
  "enum_values decl = enum_values_from 0 decl"

text \<open>The value an identifier denotes once the enumeration is declared.\<close>

definition enum_constant :: "enum_declaration \<Rightarrow> string \<Rightarrow> int option" where
  "enum_constant decl name = map_of (enum_values decl) name"

definition enumerator_names :: "enum_declaration \<Rightarrow> string list" where
  "enumerator_names decl = map fst decl"

subsection \<open>Auxiliary functions for the proofs about the names\<close>

text \<open>
  The names are not in ASCII order as they stand, but they are once the common suffix
  \<^verbatim>\<open>_FUNC\<close> is dropped and the separator \<^verbatim>\<open>__\<close> between a name and its signature is
  ranked below the escape \<^verbatim>\<open>_1\<close>. \<open>generator_key\<close> rewrites a name that way; it is used
  only to prove that no name occurs twice.
\<close>

fun low_separator :: "string \<Rightarrow> string" where
  "low_separator (a # b # rest) =
     (if a = CHR ''_'' \<and> b = CHR ''_'' then CHR ''_'' # CHR ''0'' # low_separator rest
      else a # low_separator (b # rest))"
| "low_separator cs = cs"

definition generator_key :: "string \<Rightarrow> string" where
  "generator_key name = low_separator (take (length name - 5) name)"

text \<open>Each element is strictly below its successor.\<close>

fun ascending :: "string list \<Rightarrow> bool" where
  "ascending (x # y # rest) = (x < y \<and> ascending (y # rest))"
| "ascending xs = True"

subsection \<open>Identifiers\<close>






subsection \<open>The table behind the three variables\<close>

text \<open>
  Modelled from the spec: the file that defines \<^verbatim>\<open>OS_nativeFunctionCount\<close>,
  \<^verbatim>\<open>OS_nativeFunctionCallCount\<close> and \<^verbatim>\<open>OS_nativeFunctionNames\<close> is missing; the header
  only declares them, both arrays without a size. The spec describes them as a call-count
  telemetry table: a fixed-size array of counters indexed by function ordinal, with a
  parallel array of names and a total count. So the array of counters has one cell for
  each enumerator of \<^verbatim>\<open>OS_FUNCS\<close>, the array of names has as many cells, and the count is
  that number.
\<close>

definition telemetry_table :: "'a stats_state_scheme \<Rightarrow> bool" where
  "telemetry_table s \<longleftrightarrow>
     sint (OS_nativeFunctionCount s) = int (length OS_FUNCS) \<and>
     length (OS_nativeFunctionCallCount s) = length OS_FUNCS \<and>
     length (OS_nativeFunctionNames s) = length OS_FUNCS"

section \<open>Facts about the enumeration\<close>

lemma OS_FUNCS_length: "length OS_FUNCS = 987"
  unfolding OS_FUNCS_def by simp

lemma OS_FUNCS_implicit: "map snd OS_FUNCS = replicate 987 None"
  unfolding OS_FUNCS_def by (simp add: eval_nat_numeral)

lemma OS_FUNCS_first: "enumerator_names OS_FUNCS ! 0 = ''Call_FUNC''"
  unfolding OS_FUNCS_def enumerator_names_def by simp

lemma OS_FUNCS_last: "enumerator_names OS_FUNCS ! 986 = ''strlen_FUNC''"
  unfolding OS_FUNCS_def enumerator_names_def by simp

lemma OS_FUNCS_133: "enumerator_names OS_FUNCS ! 133 = ''_1g_1list_1free_FUNC''"
  unfolding OS_FUNCS_def enumerator_names_def by simp

lemma OS_FUNCS_134: "enumerator_names OS_FUNCS ! 134 = ''_1g_1list_1free_11_FUNC''"
  unfolding OS_FUNCS_def enumerator_names_def by simp

lemma OS_FUNCS_keys_ascending:
  "ascending (map generator_key (enumerator_names OS_FUNCS))"
  unfolding OS_FUNCS_def enumerator_names_def by (simp add: generator_key_def)

lemma enumerator_names_length: "length (enumerator_names decl) = length decl"
  by (simp add: enumerator_names_def)

lemma ascending_sorted_wrt: "ascending xs \<Longrightarrow> sorted_wrt (<) xs"
proof (induction xs rule: ascending.induct)
  case (1 x y rest)
  then have xy: "x < y" and tl: "sorted_wrt (<) (y # rest)"
    by simp_all
  from tl have "\<forall>z\<in>set rest. y < z"
    by simp
  with xy have "\<forall>z\<in>set (y # rest). x < z"
    by auto
  with tl show ?case
    by simp
qed simp_all

lemma OS_FUNCS_names_distinct: "distinct (enumerator_names OS_FUNCS)"
proof -
  have "sorted_wrt (<) (map generator_key (enumerator_names OS_FUNCS))"
    by (rule ascending_sorted_wrt) (rule OS_FUNCS_keys_ascending)
  then have "distinct (map generator_key (enumerator_names OS_FUNCS))"
    by (simp add: strict_sorted_iff)
  then show ?thesis
    by (simp add: distinct_map)
qed

text \<open>
  Where no enumerator has an explicit value, the values count up from the starting
  value in steps of one.
\<close>

lemma enum_values_from_implicit:
  "map snd decl = replicate (length decl) None \<Longrightarrow>
   enum_values_from n decl = zip (map fst decl) (map (\<lambda>i. n + int i) [0..<length decl])"
proof (induction decl arbitrary: n)
  case Nil
  show ?case by simp
next
  case (Cons e rest)
  obtain name v where e: "e = (name, v)"
    by (cases e)
  from Cons.prems e have v: "v = None" and rest: "map snd rest = replicate (length rest) None"
    by simp_all
  have shift: "map (\<lambda>i. n + int i) [Suc 0..<Suc (length rest)] =
      map (\<lambda>i. (n + 1) + int i) [0..<length rest]"
    by (simp add: map_Suc_upt [symmetric] del: upt_Suc)
  have "[0..<length (e # rest)] = 0 # [Suc 0..<Suc (length rest)]"
    by (simp add: upt_rec)
  then have "map (\<lambda>i. n + int i) [0..<length (e # rest)] =
      n # map (\<lambda>i. (n + 1) + int i) [0..<length rest]"
    using shift by simp
  then show ?case
    using Cons.IH [OF rest, of "n + 1"] e v by simp
qed

lemma OS_FUNCS_values:
  "enum_values OS_FUNCS = zip (enumerator_names OS_FUNCS) (map int [0..<987])"
proof -
  have "map snd OS_FUNCS = replicate (length OS_FUNCS) None"
    by (simp add: OS_FUNCS_implicit OS_FUNCS_length)
  from enum_values_from_implicit [OF this, of 0] show ?thesis
    by (simp add: enum_values_def enumerator_names_def OS_FUNCS_length)
qed

lemma OS_FUNCS_value_nth:
  assumes "i < 987"
  shows "enum_values OS_FUNCS ! i = (enumerator_names OS_FUNCS ! i, int i)"
  using assms
  by (simp add: OS_FUNCS_values enumerator_names_length OS_FUNCS_length del: upt_Suc)

lemma OS_FUNCS_constant_nth:
  assumes "i < 987"
  shows "enum_constant OS_FUNCS (enumerator_names OS_FUNCS ! i) = Some (int i)"
proof -
  have len: "length (enumerator_names OS_FUNCS) = length (map int [0..<987])"
    by (simp add: enumerator_names_length OS_FUNCS_length)
  from assms have i: "i < length (map int [0..<987])"
    by simp
  have "map_of (zip (enumerator_names OS_FUNCS) (map int [0..<987]))
      (enumerator_names OS_FUNCS ! i) = Some (map int [0..<987] ! i)"
    by (rule map_of_zip_nth [OF len OS_FUNCS_names_distinct i])
  with assms show ?thesis
    by (simp add: enum_constant_def OS_FUNCS_values del: upt_Suc)
qed

lemma OS_FUNCS_Call_FUNC: "enum_constant OS_FUNCS ''Call_FUNC'' = Some 0"
  using OS_FUNCS_constant_nth [of 0] by (simp add: OS_FUNCS_first)

lemma OS_FUNCS_strlen_FUNC: "enum_constant OS_FUNCS ''strlen_FUNC'' = Some 986"
  using OS_FUNCS_constant_nth [of 986] by (simp add: OS_FUNCS_last)






lemma OS_FUNCS_constant_range:
  assumes "enum_constant OS_FUNCS name = Some func"
  shows "0 \<le> func \<and> func < 987"
proof -
  from assms have "(name, func) \<in> set (enum_values OS_FUNCS)"
    by (simp add: enum_constant_def map_of_SomeD)
  then have "func \<in> set (map int [0..<987])"
    unfolding OS_FUNCS_values by (rule set_zip_rightD)
  then show ?thesis
    by auto
qed

section \<open>Facts about the hooks\<close>

lemma post_increment_at_in_bounds:
  assumes "0 \<le> i" and "i < int (length a)"
  shows "post_increment_at a i = Inr (a[nat i := a ! nat i + 1])"
  using assms by (simp add: post_increment_at_def)

lemma OS_NATIVE_ENTER_enabled:
  assumes "0 \<le> func" and "func < int (length (OS_nativeFunctionCallCount s))"
  shows "OS_NATIVE_ENTER True env that func s =
    Inr (s\<lparr>OS_nativeFunctionCallCount :=
      (OS_nativeFunctionCallCount s)[nat func := OS_nativeFunctionCallCount s ! nat func + 1]\<rparr>)"
  using assms by (simp add: OS_NATIVE_ENTER_def post_increment_at_in_bounds)

lemma sint_increment:
  fixes c :: c_int
  assumes "sint c < INT_MAX"
  shows "sint (c + 1) = sint c + 1"
proof -
  have lo: "- (2 ^ 31) \<le> sint c"
    using sint_ge [of c] by simp
  have "sint (c + 1) = signed_take_bit 31 (sint c + 1)"
    by (simp add: sint_word_ariths)
  also have "\<dots> = sint c + 1"
    using lo assms by (simp add: signed_take_bit_int_eq_self INT_MAX_def)
  finally show ?thesis .
qed

section \<open>The hooks\<close>

text \<open>
  C1, as amended. With \<^verbatim>\<open>NATIVE_STATS\<close> defined, for every function ordinal \<open>func\<close> inside
  the counter table and every state in which the counter at \<open>func\<close> is below
  \<^verbatim>\<open>INT_MAX\<close>, \<^verbatim>\<open>OS_NATIVE_ENTER(env, that, func)\<close> succeeds and the value of
  \<^verbatim>\<open>OS_nativeFunctionCallCount[func]\<close> afterwards is its value before plus exactly one.
\<close>

theorem OS_NATIVE_ENTER_increments_counter:
  assumes "0 \<le> func" and "func < int (length (OS_nativeFunctionCallCount s))"
    and "sint (OS_nativeFunctionCallCount s ! nat func) < INT_MAX"
  shows "\<exists>s'. OS_NATIVE_ENTER True env that func s = Inr s' \<and>
    sint (OS_nativeFunctionCallCount s' ! nat func) =
      sint (OS_nativeFunctionCallCount s ! nat func) + 1"
proof -
  let ?a = "OS_nativeFunctionCallCount s"
  let ?s' = "s\<lparr>OS_nativeFunctionCallCount := ?a[nat func := ?a ! nat func + 1]\<rparr>"
  have run: "OS_NATIVE_ENTER True env that func s = Inr ?s'"
    using assms(1,2) by (rule OS_NATIVE_ENTER_enabled)
  from assms(1,2) have "nat func < length ?a"
    by simp
  then have "OS_nativeFunctionCallCount ?s' ! nat func = ?a ! nat func + 1"
    by simp
  then have "sint (OS_nativeFunctionCallCount ?s' ! nat func) = sint (?a ! nat func) + 1"
    using assms(3) by (simp add: sint_increment)
  with run show ?thesis
    by blast
qed

text \<open>
  C1, an instance: the hook called for ordinal 0 on a table of three counters that holds
  41 at index 0.
\<close>

theorem OS_NATIVE_ENTER_increments_counter_witness:
  "(0::int) \<le> 0 \<and>
   (0::int) < int (length (OS_nativeFunctionCallCount
     \<lparr>OS_nativeFunctionCount = 3, OS_nativeFunctionCallCount = [41, 0, 7],
      OS_nativeFunctionNames = [''Call'', ''memset'', ''strlen'']\<rparr>)) \<and>
   sint (OS_nativeFunctionCallCount
     \<lparr>OS_nativeFunctionCount = 3, OS_nativeFunctionCallCount = [41, 0, 7],
      OS_nativeFunctionNames = [''Call'', ''memset'', ''strlen'']\<rparr> ! nat 0) < INT_MAX \<and>
   (\<exists>s'. OS_NATIVE_ENTER True () () 0
       \<lparr>OS_nativeFunctionCount = 3, OS_nativeFunctionCallCount = [41, 0, 7],
        OS_nativeFunctionNames = [''Call'', ''memset'', ''strlen'']\<rparr> = Inr s' \<and>
     sint (OS_nativeFunctionCallCount s' ! nat 0) = 42)"
  using OS_NATIVE_ENTER_increments_counter [of 0
    "\<lparr>OS_nativeFunctionCount = 3, OS_nativeFunctionCallCount = [41, 0, 7],
      OS_nativeFunctionNames = [''Call'', ''memset'', ''strlen'']\<rparr>" "()" "()"]
  by (simp add: INT_MAX_def)

text \<open>
  C1 as stated fails where the counter holds \<^verbatim>\<open>INT_MAX\<close>: the hook called for ordinal 0
  (\<^verbatim>\<open>Call_FUNC\<close>) on a table of 987 counters with 2147483647 at index 0 leaves
  -2147483648 there, which is not 2147483647 plus one.
\<close>

theorem OS_NATIVE_ENTER_at_INT_MAX:
  "OS_NATIVE_ENTER True () () 0
     \<lparr>OS_nativeFunctionCount = 987,
      OS_nativeFunctionCallCount = 2147483647 # replicate 986 0,
      OS_nativeFunctionNames = enumerator_names OS_FUNCS\<rparr> =
   Inr \<lparr>OS_nativeFunctionCount = 987,
      OS_nativeFunctionCallCount = (- 2147483648) # replicate 986 0,
      OS_nativeFunctionNames = enumerator_names OS_FUNCS\<rparr> \<and>
   sint (2147483647 :: c_int) = INT_MAX \<and>
   sint (- 2147483648 :: c_int) = - 2147483648 \<and>
   sint (- 2147483648 :: c_int) \<noteq> sint (2147483647 :: c_int) + 1"
  by (simp add: OS_NATIVE_ENTER_def post_increment_at_def INT_MAX_def)

text \<open>
  C3, as amended. With \<^verbatim>\<open>NATIVE_STATS\<close> defined, only \<^verbatim>\<open>OS_NATIVE_ENTER\<close> increments the
  counter: for every function ordinal \<open>func\<close> inside the counter table it adds one to
  \<^verbatim>\<open>OS_nativeFunctionCallCount[func]\<close> in 32-bit arithmetic (which is one more as a
  number wherever the counter is below \<^verbatim>\<open>INT_MAX\<close>), while \<^verbatim>\<open>OS_NATIVE_EXIT\<close> expands to
  nothing and returns the state it was given.
\<close>

theorem hooks_with_NATIVE_STATS:
  assumes "0 \<le> func" and "func < int (length (OS_nativeFunctionCallCount s))"
  shows "(\<exists>s'. OS_NATIVE_ENTER True env that func s = Inr s' \<and>
      OS_nativeFunctionCallCount s' ! nat func = OS_nativeFunctionCallCount s ! nat func + 1 \<and>
      (sint (OS_nativeFunctionCallCount s ! nat func) < INT_MAX \<longrightarrow>
        sint (OS_nativeFunctionCallCount s' ! nat func) =
          sint (OS_nativeFunctionCallCount s ! nat func) + 1)) \<and>
    OS_NATIVE_EXIT True env that func s = Inr s"
proof -
  let ?a = "OS_nativeFunctionCallCount s"
  let ?s' = "s\<lparr>OS_nativeFunctionCallCount := ?a[nat func := ?a ! nat func + 1]\<rparr>"
  have run: "OS_NATIVE_ENTER True env that func s = Inr ?s'"
    using assms by (rule OS_NATIVE_ENTER_enabled)
  from assms have "nat func < length ?a"
    by simp
  then have new: "OS_nativeFunctionCallCount ?s' ! nat func = ?a ! nat func + 1"
    by simp
  have "sint (?a ! nat func) < INT_MAX \<longrightarrow>
      sint (OS_nativeFunctionCallCount ?s' ! nat func) = sint (?a ! nat func) + 1"
    unfolding new by (simp add: sint_increment)
  with run new have enter: "\<exists>s'. OS_NATIVE_ENTER True env that func s = Inr s' \<and>
      OS_nativeFunctionCallCount s' ! nat func = ?a ! nat func + 1 \<and>
      (sint (?a ! nat func) < INT_MAX \<longrightarrow>
        sint (OS_nativeFunctionCallCount s' ! nat func) = sint (?a ! nat func) + 1)"
    by blast
  have "OS_NATIVE_EXIT True env that func s = Inr s"
    by (simp add: OS_NATIVE_EXIT_def)
  with enter show ?thesis
    by blast
qed

text \<open>
  C3, an instance: both hooks called for ordinal 1 on a table of three counters whose
  counter at index 1 holds 9.
\<close>

theorem hooks_with_NATIVE_STATS_witness:
  "(0::int) \<le> 1 \<and>
   (1::int) < int (length (OS_nativeFunctionCallCount
     \<lparr>OS_nativeFunctionCount = 3, OS_nativeFunctionCallCount = [4, 9, 0],
      OS_nativeFunctionNames = [''Call'', ''memset'', ''strlen'']\<rparr>)) \<and>
   sint (9 :: c_int) < INT_MAX \<and>
   (\<exists>s'. OS_NATIVE_ENTER True () () 1
       \<lparr>OS_nativeFunctionCount = 3, OS_nativeFunctionCallCount = [4, 9, 0],
        OS_nativeFunctionNames = [''Call'', ''memset'', ''strlen'']\<rparr> = Inr s' \<and>
     OS_nativeFunctionCallCount s' ! nat 1 = 10 \<and>
     sint (OS_nativeFunctionCallCount s' ! nat 1) = 10) \<and>
   OS_NATIVE_EXIT True () () 1
     \<lparr>OS_nativeFunctionCount = 3, OS_nativeFunctionCallCount = [4, 9, 0],
      OS_nativeFunctionNames = [''Call'', ''memset'', ''strlen'']\<rparr> =
   Inr \<lparr>OS_nativeFunctionCount = 3, OS_nativeFunctionCallCount = [4, 9, 0],
      OS_nativeFunctionNames = [''Call'', ''memset'', ''strlen'']\<rparr>"
  using hooks_with_NATIVE_STATS [of 1
    "\<lparr>OS_nativeFunctionCount = 3, OS_nativeFunctionCallCount = [4, 9, 0],
      OS_nativeFunctionNames = [''Call'', ''memset'', ''strlen'']\<rparr>" "()" "()"]
  by (simp add: INT_MAX_def)

text \<open>
  C3 as stated fails for \<^verbatim>\<open>OS_NATIVE_EXIT\<close>: with \<^verbatim>\<open>NATIVE_STATS\<close> defined, the hook called
  for ordinal 0 on a table of 987 counters that are all 0 returns the same table, so the
  counter at index 0 is still 0 and has not been incremented.
\<close>

theorem OS_NATIVE_EXIT_does_not_increment:
  "OS_NATIVE_EXIT True () () 0
     \<lparr>OS_nativeFunctionCount = 987,
      OS_nativeFunctionCallCount = replicate 987 0,
      OS_nativeFunctionNames = enumerator_names OS_FUNCS\<rparr> =
   Inr \<lparr>OS_nativeFunctionCount = 987,
      OS_nativeFunctionCallCount = replicate 987 0,
      OS_nativeFunctionNames = enumerator_names OS_FUNCS\<rparr> \<and>
   replicate 987 (0 :: c_int) ! nat 0 = 0"
  by (simp add: OS_NATIVE_EXIT_def)

text \<open>
  C4. With \<^verbatim>\<open>NATIVE_STATS\<close> not defined both hooks expand to nothing: for every function
  ordinal \<open>func\<close>, inside the table or not, and every program state, the state after
  \<^verbatim>\<open>OS_NATIVE_ENTER(env, that, func)\<close> and after \<^verbatim>\<open>OS_NATIVE_EXIT(env, that, func)\<close> is the
  state before.
\<close>

theorem hooks_without_NATIVE_STATS:
  "OS_NATIVE_ENTER False env that func s = Inr s \<and>
   OS_NATIVE_EXIT False env that func s = Inr s"
  by (simp add: OS_NATIVE_ENTER_def OS_NATIVE_EXIT_def)

text \<open>
  C5. With \<^verbatim>\<open>NATIVE_STATS\<close> defined, for every function ordinal \<open>func\<close> inside the counter
  table, \<^verbatim>\<open>OS_NATIVE_ENTER(env, that, func)\<close> succeeds and leaves every counter at an index
  other than \<open>func\<close> as it was, the table at its length, and
  \<^verbatim>\<open>OS_nativeFunctionCount\<close>, \<^verbatim>\<open>OS_nativeFunctionNames\<close> and the rest of the program state
  unchanged.
\<close>

theorem OS_NATIVE_ENTER_frame:
  assumes "0 \<le> func" and "func < int (length (OS_nativeFunctionCallCount s))"
  shows "\<exists>s'. OS_NATIVE_ENTER True env that func s = Inr s' \<and>
    (\<forall>g. g \<noteq> nat func \<longrightarrow>
      OS_nativeFunctionCallCount s' ! g = OS_nativeFunctionCallCount s ! g) \<and>
    length (OS_nativeFunctionCallCount s') = length (OS_nativeFunctionCallCount s) \<and>
    OS_nativeFunctionCount s' = OS_nativeFunctionCount s \<and>
    OS_nativeFunctionNames s' = OS_nativeFunctionNames s \<and>
    stats_state.more s' = stats_state.more s"
proof -
  let ?a = "OS_nativeFunctionCallCount s"
  let ?s' = "s\<lparr>OS_nativeFunctionCallCount := ?a[nat func := ?a ! nat func + 1]\<rparr>"
  have run: "OS_NATIVE_ENTER True env that func s = Inr ?s'"
    using assms by (rule OS_NATIVE_ENTER_enabled)
  have others: "\<forall>g. g \<noteq> nat func \<longrightarrow> OS_nativeFunctionCallCount ?s' ! g = ?a ! g"
    by simp
  have rest: "length (OS_nativeFunctionCallCount ?s') = length ?a \<and>
      OS_nativeFunctionCount ?s' = OS_nativeFunctionCount s \<and>
      OS_nativeFunctionNames ?s' = OS_nativeFunctionNames s \<and>
      stats_state.more ?s' = stats_state.more s"
    by simp
  from run others rest show ?thesis
    by blast
qed

text \<open>
  C5, an instance: the hook called for ordinal 0 on a table of three counters leaves the
  counter at index 1 and the other two variables as they were.
\<close>

theorem OS_NATIVE_ENTER_frame_witness:
  "(0::int) \<le> 0 \<and>
   (0::int) < int (length (OS_nativeFunctionCallCount
     \<lparr>OS_nativeFunctionCount = 3, OS_nativeFunctionCallCount = [41, 5, 7],
      OS_nativeFunctionNames = [''Call'', ''memset'', ''strlen'']\<rparr>)) \<and>
   (1::nat) \<noteq> nat 0 \<and>
   (\<exists>s'. OS_NATIVE_ENTER True () () 0
       \<lparr>OS_nativeFunctionCount = 3, OS_nativeFunctionCallCount = [41, 5, 7],
        OS_nativeFunctionNames = [''Call'', ''memset'', ''strlen'']\<rparr> = Inr s' \<and>
     OS_nativeFunctionCallCount s' ! 1 = 5 \<and>
     length (OS_nativeFunctionCallCount s') = 3 \<and>
     OS_nativeFunctionCount s' = 3 \<and>
     OS_nativeFunctionNames s' = [''Call'', ''memset'', ''strlen''])"
  using OS_NATIVE_ENTER_frame [of 0
    "\<lparr>OS_nativeFunctionCount = 3, OS_nativeFunctionCallCount = [41, 5, 7],
      OS_nativeFunctionNames = [''Call'', ''memset'', ''strlen'']\<rparr>" "()" "()"]
  by auto

text \<open>
  C6. With \<^verbatim>\<open>NATIVE_STATS\<close> defined the header declares a call-count table of three
  variables: the count \<^verbatim>\<open>OS_nativeFunctionCount\<close>, the array of counters
  \<^verbatim>\<open>OS_nativeFunctionCallCount\<close> and the array of names \<^verbatim>\<open>OS_nativeFunctionNames\<close>;
  with \<^verbatim>\<open>NATIVE_STATS\<close> not defined it declares none of them. On a table of the shape
  the spec gives it, the value of every enumerator of \<^verbatim>\<open>OS_FUNCS\<close> is below the count and
  indexes a cell of both arrays, which are of the same length, and neither hook changes
  that shape: the arrays keep their size.
\<close>

theorem telemetry_table_declared:
  "map snd (extern_declarations True) =
     [''OS_nativeFunctionCount'', ''OS_nativeFunctionCallCount'', ''OS_nativeFunctionNames''] \<and>
   map fst (extern_declarations True) = [Int_t, Int_array_t, Char_ptr_array_t] \<and>
   extern_declarations False = [] \<and>
   (telemetry_table s \<and> enum_constant OS_FUNCS name = Some func \<longrightarrow>
      0 \<le> func \<and> func < sint (OS_nativeFunctionCount s) \<and>
      nat func < length (OS_nativeFunctionCallCount s) \<and>
      nat func < length (OS_nativeFunctionNames s) \<and>
      length (OS_nativeFunctionNames s) = length (OS_nativeFunctionCallCount s) \<and>
      (\<exists>s'. OS_NATIVE_ENTER True env that func s = Inr s' \<and> telemetry_table s') \<and>
      (\<exists>s'. OS_NATIVE_EXIT True env that func s = Inr s' \<and> telemetry_table s'))"
proof -
  have declared: "map snd (extern_declarations True) =
      [''OS_nativeFunctionCount'', ''OS_nativeFunctionCallCount'', ''OS_nativeFunctionNames''] \<and>
    map fst (extern_declarations True) = [Int_t, Int_array_t, Char_ptr_array_t] \<and>
    extern_declarations False = []"
    by (simp add: extern_declarations_def)
  have table: "0 \<le> func \<and> func < sint (OS_nativeFunctionCount s) \<and>
      nat func < length (OS_nativeFunctionCallCount s) \<and>
      nat func < length (OS_nativeFunctionNames s) \<and>
      length (OS_nativeFunctionNames s) = length (OS_nativeFunctionCallCount s) \<and>
      (\<exists>s'. OS_NATIVE_ENTER True env that func s = Inr s' \<and> telemetry_table s') \<and>
      (\<exists>s'. OS_NATIVE_EXIT True env that func s = Inr s' \<and> telemetry_table s')"
    if shape: "telemetry_table s" and ordinal: "enum_constant OS_FUNCS name = Some func"
  proof -
    let ?a = "OS_nativeFunctionCallCount s"
    let ?s' = "s\<lparr>OS_nativeFunctionCallCount := ?a[nat func := ?a ! nat func + 1]\<rparr>"
    from ordinal have range: "0 \<le> func" "func < 987"
      using OS_FUNCS_constant_range by blast+
    from shape have count: "sint (OS_nativeFunctionCount s) = 987"
      and counters: "length ?a = 987"
      and names: "length (OS_nativeFunctionNames s) = 987"
      by (simp_all add: telemetry_table_def OS_FUNCS_length)
    from range counters have inside: "func < int (length ?a)"
      by simp
    have "OS_NATIVE_ENTER True env that func s = Inr ?s'"
      using range(1) inside by (rule OS_NATIVE_ENTER_enabled)
    moreover from shape have "telemetry_table ?s'"
      by (simp add: telemetry_table_def)
    ultimately have enter: "\<exists>s'. OS_NATIVE_ENTER True env that func s = Inr s' \<and>
        telemetry_table s'"
      by blast
    from shape have leave: "\<exists>s'. OS_NATIVE_EXIT True env that func s = Inr s' \<and>
        telemetry_table s'"
      by (simp add: OS_NATIVE_EXIT_def)
    from range count counters names enter leave show ?thesis
      by simp
  qed
  from declared table show ?thesis
    by blast
qed

text \<open>
  C6, an instance: the table of 987 counters, all 0, with 987 names and the count 987,
  and the last enumerator, \<^verbatim>\<open>strlen_FUNC\<close>, of value 986.
\<close>

theorem telemetry_table_declared_witness:
  "telemetry_table
     \<lparr>OS_nativeFunctionCount = 987, OS_nativeFunctionCallCount = replicate 987 0,
      OS_nativeFunctionNames = enumerator_names OS_FUNCS\<rparr> \<and>
   enum_constant OS_FUNCS ''strlen_FUNC'' = Some 986 \<and>
   (986::int) < sint (OS_nativeFunctionCount
     \<lparr>OS_nativeFunctionCount = 987, OS_nativeFunctionCallCount = replicate 987 0,
      OS_nativeFunctionNames = enumerator_names OS_FUNCS\<rparr>) \<and>
   nat 986 < length (OS_nativeFunctionNames
     \<lparr>OS_nativeFunctionCount = 987, OS_nativeFunctionCallCount = replicate 987 0,
      OS_nativeFunctionNames = enumerator_names OS_FUNCS\<rparr>) \<and>
   (\<exists>s'. OS_NATIVE_ENTER True () () 986
       \<lparr>OS_nativeFunctionCount = 987, OS_nativeFunctionCallCount = replicate 987 0,
        OS_nativeFunctionNames = enumerator_names OS_FUNCS\<rparr> = Inr s' \<and> telemetry_table s')"
proof -
  let ?s = "\<lparr>OS_nativeFunctionCount = 987, OS_nativeFunctionCallCount = replicate 987 0,
      OS_nativeFunctionNames = enumerator_names OS_FUNCS\<rparr>"
  have shape: "telemetry_table ?s"
    by (simp add: telemetry_table_def OS_FUNCS_length enumerator_names_length)
  from telemetry_table_declared [of ?s "''strlen_FUNC''" 986 "()" "()"]
    shape OS_FUNCS_strlen_FUNC
  show ?thesis
    by simp
qed

text \<open>
  C8. \<^verbatim>\<open>OS_NATIVE_EXIT\<close> expands to nothing whether \<^verbatim>\<open>NATIVE_STATS\<close> is defined or not:
  for every function ordinal \<open>func\<close> and every program state, the state after
  \<^verbatim>\<open>OS_NATIVE_EXIT(env, that, func)\<close> is the state before.
\<close>

theorem OS_NATIVE_EXIT_no_op:
  "OS_NATIVE_EXIT NATIVE_STATS env that func s = Inr s"
  by (simp add: OS_NATIVE_EXIT_def)

text \<open>
  C10. On a counter table with as many entries as \<^verbatim>\<open>OS_FUNCS\<close> has enumerators, for
  every \<open>func\<close> from 0 to the value of \<^verbatim>\<open>strlen_FUNC\<close>, the access
  \<^verbatim>\<open>OS_nativeFunctionCallCount[func]\<close> of \<^verbatim>\<open>OS_NATIVE_ENTER\<close> is inside the table: the hook
  does not end in \<open>Out_of_bounds\<close> but returns a state. The value of \<^verbatim>\<open>strlen_FUNC\<close> is
  986 and the number of enumerators is 987.
\<close>

theorem OS_NATIVE_ENTER_in_bounds:
  assumes "length (OS_nativeFunctionCallCount s) = length OS_FUNCS"
    and "enum_constant OS_FUNCS ''strlen_FUNC'' = Some strlen_FUNC"
    and "0 \<le> func" and "func \<le> strlen_FUNC"
  shows "strlen_FUNC = 986 \<and> length OS_FUNCS = 987 \<and>
    post_increment_at (OS_nativeFunctionCallCount s) func \<noteq> Inl Out_of_bounds \<and>
    OS_NATIVE_ENTER True env that func s \<noteq> Inl Out_of_bounds \<and>
    (\<exists>s'. OS_NATIVE_ENTER True env that func s = Inr s')"
proof -
  from assms(2) have last: "strlen_FUNC = 986"
    by (simp add: OS_FUNCS_strlen_FUNC)
  with assms(1,4) have inside: "func < int (length (OS_nativeFunctionCallCount s))"
    by (simp add: OS_FUNCS_length)
  from assms(3) inside have "post_increment_at (OS_nativeFunctionCallCount s) func \<noteq>
      Inl Out_of_bounds"
    by (simp add: post_increment_at_in_bounds)
  moreover from assms(3) inside have "OS_NATIVE_ENTER True env that func s \<noteq> Inl Out_of_bounds"
    by (simp add: OS_NATIVE_ENTER_enabled)
  moreover from assms(3) inside have "\<exists>s'. OS_NATIVE_ENTER True env that func s = Inr s'"
    by (simp add: OS_NATIVE_ENTER_enabled)
  ultimately show ?thesis
    using last by (simp add: OS_FUNCS_length)
qed

text \<open>
  C10, an instance: the hook called for the last ordinal, 986, on a table of 987 counters.
\<close>

theorem OS_NATIVE_ENTER_in_bounds_witness:
  "length (OS_nativeFunctionCallCount
     \<lparr>OS_nativeFunctionCount = 987, OS_nativeFunctionCallCount = replicate 987 0,
      OS_nativeFunctionNames = enumerator_names OS_FUNCS\<rparr>) = length OS_FUNCS \<and>
   enum_constant OS_FUNCS ''strlen_FUNC'' = Some 986 \<and>
   (0::int) \<le> 986 \<and> (986::int) \<le> 986 \<and>
   OS_NATIVE_ENTER True () () 986
     \<lparr>OS_nativeFunctionCount = 987, OS_nativeFunctionCallCount = replicate 987 0,
      OS_nativeFunctionNames = enumerator_names OS_FUNCS\<rparr> \<noteq> Inl Out_of_bounds"
  using OS_NATIVE_ENTER_in_bounds [of
    "\<lparr>OS_nativeFunctionCount = 987, OS_nativeFunctionCallCount = replicate 987 0,
      OS_nativeFunctionNames = enumerator_names OS_FUNCS\<rparr>" 986 986 "()" "()"]
  by (simp add: OS_FUNCS_length OS_FUNCS_strlen_FUNC)

section \<open>The enumeration\<close>

text \<open>
  C2. The values of \<^verbatim>\<open>OS_FUNCS\<close> run from 0 to N - 1 with no gap, N being the number of
  enumerators: no enumerator has an explicit value, the first enumerator \<^verbatim>\<open>Call_FUNC\<close>
  has value 0, every later enumerator has the value of its predecessor plus one, no
  value is repeated, and the last enumerator \<^verbatim>\<open>strlen_FUNC\<close> has value N - 1. The
  enumeration stands outside the \<^verbatim>\<open>#ifdef\<close>, so the values do not depend on the flag.
\<close>

theorem OS_FUNCS_contiguous:
  "map snd OS_FUNCS = replicate (length OS_FUNCS) None \<and>
   map snd (enum_values OS_FUNCS) = map int [0..<length OS_FUNCS] \<and>
   map fst (enum_values OS_FUNCS) = enumerator_names OS_FUNCS \<and>
   enum_values OS_FUNCS ! 0 = (''Call_FUNC'', 0) \<and>
   enum_constant OS_FUNCS ''Call_FUNC'' = Some 0 \<and>
   (\<forall>i. Suc i < length OS_FUNCS \<longrightarrow>
     snd (enum_values OS_FUNCS ! Suc i) = snd (enum_values OS_FUNCS ! i) + 1) \<and>
   distinct (map snd (enum_values OS_FUNCS)) \<and>
   enum_values OS_FUNCS ! (length OS_FUNCS - 1) = (''strlen_FUNC'', int (length OS_FUNCS) - 1) \<and>
   enum_constant OS_FUNCS ''strlen_FUNC'' = Some (int (length OS_FUNCS) - 1)"
proof -
  have implicit: "map snd OS_FUNCS = replicate (length OS_FUNCS) None"
    by (simp add: OS_FUNCS_implicit OS_FUNCS_length)
  have ordinals: "map snd (enum_values OS_FUNCS) = map int [0..<length OS_FUNCS]"
    by (simp add: OS_FUNCS_values OS_FUNCS_length enumerator_names_length del: upt_Suc)
  have names: "map fst (enum_values OS_FUNCS) = enumerator_names OS_FUNCS"
    by (simp add: OS_FUNCS_values OS_FUNCS_length enumerator_names_length del: upt_Suc)
  have first: "enum_values OS_FUNCS ! 0 = (''Call_FUNC'', 0)"
    using OS_FUNCS_value_nth [of 0] by (simp add: OS_FUNCS_first)
  have step: "\<forall>i. Suc i < length OS_FUNCS \<longrightarrow>
      snd (enum_values OS_FUNCS ! Suc i) = snd (enum_values OS_FUNCS ! i) + 1"
    by (simp add: OS_FUNCS_length OS_FUNCS_value_nth)
  have "inj_on int (set [0..<length OS_FUNCS])"
    by (simp add: inj_on_def)
  then have no_repeat: "distinct (map snd (enum_values OS_FUNCS))"
    unfolding ordinals by (simp add: distinct_map del: upt_Suc)
  have last: "enum_values OS_FUNCS ! (length OS_FUNCS - 1) =
      (''strlen_FUNC'', int (length OS_FUNCS) - 1)"
    using OS_FUNCS_value_nth [of 986] by (simp add: OS_FUNCS_last OS_FUNCS_length)
  have last_constant: "enum_constant OS_FUNCS ''strlen_FUNC'' = Some (int (length OS_FUNCS) - 1)"
    by (simp add: OS_FUNCS_strlen_FUNC OS_FUNCS_length)
  from implicit ordinals names first OS_FUNCS_Call_FUNC step no_repeat last last_constant
  show ?thesis
    by blast
qed

text \<open>
  C2, an instance: the second enumerator, \<^verbatim>\<open>GDK_1WINDOWING_1X11_FUNC\<close>, has the value of
  \<^verbatim>\<open>Call_FUNC\<close> plus one.
\<close>

theorem OS_FUNCS_contiguous_witness:
  "Suc 0 < length OS_FUNCS \<and>
   snd (enum_values OS_FUNCS ! Suc 0) = snd (enum_values OS_FUNCS ! 0) + 1"
  using OS_FUNCS_contiguous by (simp add: OS_FUNCS_length)


text \<open>
  C9, as amended. The enumerator names of \<^verbatim>\<open>OS_FUNCS\<close>, from \<^verbatim>\<open>Call_FUNC\<close> (first) to
  \<^verbatim>\<open>strlen_FUNC\<close> (last), are pairwise distinct, so the mapping from ordinal to name is
  injective.
\<close>

theorem OS_FUNCS_names_injective:
  "distinct (enumerator_names OS_FUNCS) \<and>
   inj_on (\<lambda>i. enumerator_names OS_FUNCS ! i) {..<length OS_FUNCS} \<and>
   hd (enumerator_names OS_FUNCS) = ''Call_FUNC'' \<and>
   last (enumerator_names OS_FUNCS) = ''strlen_FUNC''"
proof -
  have len: "length (enumerator_names OS_FUNCS) = 987"
    by (simp add: enumerator_names_length OS_FUNCS_length)
  then have nonempty: "enumerator_names OS_FUNCS \<noteq> []"
    by auto
  have inj: "inj_on (\<lambda>i. enumerator_names OS_FUNCS ! i) {..<length OS_FUNCS}"
    using OS_FUNCS_names_distinct
    by (simp add: inj_on_def nth_eq_iff_index_eq enumerator_names_length)
  have first: "hd (enumerator_names OS_FUNCS) = ''Call_FUNC''"
    using nonempty by (simp add: hd_conv_nth OS_FUNCS_first)
  have final: "last (enumerator_names OS_FUNCS) = ''strlen_FUNC''"
    using nonempty by (simp add: last_conv_nth len OS_FUNCS_last)
  from OS_FUNCS_names_distinct inj first final show ?thesis
    by blast
qed

text \<open>
  C9 as stated fails: the names are not in strictly ascending ASCII order. The
  enumerator at position 133, \<^verbatim>\<open>_1g_1list_1free_FUNC\<close>, is followed by
  \<^verbatim>\<open>_1g_1list_1free_11_FUNC\<close>, which is the smaller of the two: they differ first where
  one has \<^verbatim>\<open>F\<close> and the other \<^verbatim>\<open>1\<close>.
\<close>

theorem OS_FUNCS_names_not_ascending:
  "enumerator_names OS_FUNCS ! 133 = ''_1g_1list_1free_FUNC'' \<and>
   enumerator_names OS_FUNCS ! 134 = ''_1g_1list_1free_11_FUNC'' \<and>
   ''_1g_1list_1free_11_FUNC'' < ''_1g_1list_1free_FUNC'' \<and>
   \<not> sorted_wrt (<) (enumerator_names OS_FUNCS)"
proof -
  have below: "''_1g_1list_1free_11_FUNC'' < ''_1g_1list_1free_FUNC''"
    by simp
  have "\<not> sorted_wrt (<) (enumerator_names OS_FUNCS)"
  proof
    assume "sorted_wrt (<) (enumerator_names OS_FUNCS)"
    moreover have "(133::nat) < 134" and "134 < length (enumerator_names OS_FUNCS)"
      by (simp_all add: enumerator_names_length OS_FUNCS_length)
    ultimately have "enumerator_names OS_FUNCS ! 133 < enumerator_names OS_FUNCS ! 134"
      by (rule sorted_wrt_nth_less)
    with below show False
      unfolding OS_FUNCS_133 OS_FUNCS_134 by (rule less_asym)
  qed
  with below show ?thesis
    by (simp add: OS_FUNCS_133 OS_FUNCS_134)
qed

end
